theory Spec2Isabelle
  imports Complex_Main
begin

section \<open>Options\<close>

text \<open>
  The option keys read by \<open>getrf_ca\<close> and \<open>gbsv\<close>, and the execution targets.
  An options map is a \<open>std::map<Option, Value>\<close>; only the integer field \<open>i_\<close> of a
  value is ever read, so a map sends a key to an \<open>int64_t\<close>, written here as an
  \<open>int\<close>. Where the source narrows an \<open>int64_t\<close> to \<open>int\<close>, or adds the lookahead to a
  tile index in \<open>int64_t\<close>, the reduction to 32 or 64 bits is written out (\<open>to_int32\<close>,
  \<open>int64\<close>).
\<close>

datatype slate_Option = Lookahead | InnerBlocking | MaxPanelThreads | Target

datatype Target = Host | HostTask | HostNest | HostBatch | Devices

type_synonym Options = "slate_Option \<rightharpoonup> int"

text \<open>
  A failed \<open>assert\<close> aborts the process. \<open>assert\<close> is compiled out when \<open>NDEBUG\<close> is
  defined, so every function that asserts takes the flag \<open>ndebug\<close>.
\<close>

datatype error = AssertionFailed

text \<open>
  \<open>try { x = opts.at(key).i_; assert(ok x); } catch (std::out_of_range&) { x = dflt; }\<close>:
  \<open>std::map::at\<close> throws \<open>std::out_of_range\<close> exactly when the key is absent.
\<close>

definition opt_at :: "bool \<Rightarrow> Options \<Rightarrow> slate_Option \<Rightarrow> (int \<Rightarrow> bool) \<Rightarrow> int \<Rightarrow> error + int" where
  "opt_at ndebug opts key ok dflt =
     (case opts key of
        None \<Rightarrow> Inr dflt
      | Some v \<Rightarrow> if ndebug \<or> ok v then Inr v else Inl AssertionFailed)"

record config =
  lookahead :: int
  ib :: int
  max_panel_threads :: int

text \<open>\<open>std::max(omp_get_max_threads()/2, 1)\<close>; the thread count is positive.\<close>

definition default_max_panel_threads :: "nat \<Rightarrow> int" where
  "default_max_panel_threads omp_max = max (int omp_max div 2) 1"

text \<open>The three \<open>try\<close> blocks of \<open>getrf_ca<target>(A, pivots, opts)\<close>, in order.\<close>

definition getrf_ca_options :: "bool \<Rightarrow> nat \<Rightarrow> Options \<Rightarrow> error + config" where
  "getrf_ca_options ndebug omp_max opts =
     (case opt_at ndebug opts Lookahead (\<lambda>v. 0 \<le> v) 1 of
        Inl e \<Rightarrow> Inl e
      | Inr la \<Rightarrow>
     (case opt_at ndebug opts InnerBlocking (\<lambda>v. 0 \<le> v) 16 of
        Inl e \<Rightarrow> Inl e
      | Inr b \<Rightarrow>
     (case opt_at ndebug opts MaxPanelThreads (\<lambda>v. 1 \<le> v \<and> v \<le> int omp_max)
             (default_max_panel_threads omp_max) of
        Inl e \<Rightarrow> Inl e
      | Inr t \<Rightarrow> Inr \<lparr>lookahead = la, ib = b, max_panel_threads = t\<rparr>)))"

text \<open>The three \<open>try\<close> blocks of \<open>gbsv<target>(A, pivots, B, opts)\<close>.\<close>

definition gbsv_options :: "bool \<Rightarrow> nat \<Rightarrow> Options \<Rightarrow> error + config" where
  "gbsv_options ndebug omp_max opts =
     (case opt_at ndebug opts Lookahead (\<lambda>v. 0 \<le> v) 1 of
        Inl e \<Rightarrow> Inl e
      | Inr la \<Rightarrow>
     (case opt_at ndebug opts InnerBlocking (\<lambda>v. 0 \<le> v) 16 of
        Inl e \<Rightarrow> Inl e
      | Inr b \<Rightarrow>
     (case opt_at ndebug opts MaxPanelThreads (\<lambda>v. 0 \<le> v)
             (default_max_panel_threads omp_max) of
        Inl e \<Rightarrow> Inl e
      | Inr t \<Rightarrow> Inr \<lparr>lookahead = la, ib = b, max_panel_threads = t\<rparr>)))"

text \<open>
  The specializations take \<open>int max_panel_threads\<close>: the \<open>int64_t\<close> read from the map
  is narrowed to 32 bits at the call.
\<close>

definition to_int32 :: "int \<Rightarrow> int" where
  "to_int32 x = (x + 2 ^ 31) mod 2 ^ 32 - 2 ^ 31"

text \<open>
  The value of an \<open>int64_t\<close> sum: the exact sum when it fits, and the two's-complement
  wrap-around of the machine addition when it does not (signed overflow, which the
  language leaves undefined).
\<close>

definition int64 :: "int \<Rightarrow> int" where
  "int64 x = (x + 2 ^ 63) mod 2 ^ 64 - 2 ^ 63"

section \<open>gbsv\<close>

text \<open>
  \<open>gbtrf\<close> and \<open>gbtrs\<close> are other routines of the library; they are parameters here,
  as is \<open>target_code\<close>, the integer an enumerator of \<open>Target\<close> converts to when it is
  stored in an options map. \<open>gbtrf\<close> works on the band matrix and the pivots, \<open>gbtrs\<close> on
  the band matrix, the pivots and the right-hand side.
\<close>

definition gbsv_specialization ::
  "(Options \<Rightarrow> 'm \<times> 'v \<Rightarrow> 'm \<times> 'v) \<Rightarrow> (Options \<Rightarrow> 'm \<times> 'v \<times> 'b \<Rightarrow> 'm \<times> 'v \<times> 'b) \<Rightarrow>
   (Target \<Rightarrow> int) \<Rightarrow> Target \<Rightarrow> 'm \<times> 'v \<times> 'b \<Rightarrow> int \<Rightarrow> int \<Rightarrow> int \<Rightarrow> 'm \<times> 'v \<times> 'b" where
  "gbsv_specialization gbtrf gbtrs target_code target s ib' max_panel_threads' lookahead' =
     (case s of (A, pivots, B) \<Rightarrow>
        (case gbtrf [InnerBlocking \<mapsto> ib', Lookahead \<mapsto> lookahead',
                     MaxPanelThreads \<mapsto> max_panel_threads', Target \<mapsto> target_code target]
                    (A, pivots) of
           (A', pivots') \<Rightarrow>
             gbtrs [Lookahead \<mapsto> lookahead', Target \<mapsto> target_code target] (A', pivots', B)))"

definition gbsv_target ::
  "(Options \<Rightarrow> 'm \<times> 'v \<Rightarrow> 'm \<times> 'v) \<Rightarrow> (Options \<Rightarrow> 'm \<times> 'v \<times> 'b \<Rightarrow> 'm \<times> 'v \<times> 'b) \<Rightarrow>
   (Target \<Rightarrow> int) \<Rightarrow> bool \<Rightarrow> nat \<Rightarrow> Target \<Rightarrow> Options \<Rightarrow> 'm \<times> 'v \<times> 'b \<Rightarrow>
   error + 'm \<times> 'v \<times> 'b" where
  "gbsv_target gbtrf gbtrs target_code ndebug omp_max target opts s =
     (case gbsv_options ndebug omp_max opts of
        Inl e \<Rightarrow> Inl e
      | Inr c \<Rightarrow> Inr (gbsv_specialization gbtrf gbtrs target_code target s
                        (ib c) (to_int32 (max_panel_threads c)) (lookahead c)))"

text \<open>
  \<open>Target(opts.at(Option::Target).i_)\<close> followed by the \<open>switch\<close>. The conversion
  narrows the stored \<open>int64_t\<close> to the underlying type of the enumeration; the
  declaration of \<open>Target\<close> is not part of these sources, so that narrowing is the
  parameter \<open>to_underlying\<close>. The first enumerator whose code is the narrowed integer
  selects the instantiation, \<open>Host\<close> and \<open>HostTask\<close> both selecting \<open>HostTask\<close>. The
  \<open>switch\<close> has no \<open>default\<close>: an integer that is no enumerator's code runs no case.
\<close>

definition select_target :: "(Target \<Rightarrow> int) \<Rightarrow> (int \<Rightarrow> int) \<Rightarrow> Options \<Rightarrow> Target option" where
  "select_target target_code to_underlying opts =
     (case opts Target of
        None \<Rightarrow> Some HostTask
      | Some v \<Rightarrow>
          if to_underlying v = target_code Host \<or> to_underlying v = target_code HostTask
          then Some HostTask
          else if to_underlying v = target_code HostNest then Some HostNest
          else if to_underlying v = target_code HostBatch then Some HostBatch
          else if to_underlying v = target_code Devices then Some Devices
          else None)"

definition gbsv ::
  "(Options \<Rightarrow> 'm \<times> 'v \<Rightarrow> 'm \<times> 'v) \<Rightarrow> (Options \<Rightarrow> 'm \<times> 'v \<times> 'b \<Rightarrow> 'm \<times> 'v \<times> 'b) \<Rightarrow>
   (Target \<Rightarrow> int) \<Rightarrow> (int \<Rightarrow> int) \<Rightarrow> bool \<Rightarrow> nat \<Rightarrow> Options \<Rightarrow> 'm \<times> 'v \<times> 'b \<Rightarrow>
   error + 'm \<times> 'v \<times> 'b" where
  "gbsv gbtrf gbtrs target_code to_underlying ndebug omp_max opts s =
     (case select_target target_code to_underlying opts of
        None \<Rightarrow> Inr s
      | Some target \<Rightarrow> gbsv_target gbtrf gbtrs target_code ndebug omp_max target opts s)"

section \<open>getrf_ca: the calls of the driver\<close>

text \<open>
  The driver \<open>internal::specialization::getrf_ca\<close> branches only on the target, the
  tile-grid shape and the lookahead, never on matrix data, so its run is a fixed
  sequence of calls. Each call site is a constructor of \<open>op\<close> holding the arguments
  that vary; \<open>getrf_ca_ops\<close> lists the calls in program order and \<open>exec\<close> gives each
  call its effect. The \<open>omp parallel\<close> region and the \<open>omp task\<close> pragmas of the
  panel, lookahead and trailing blocks are commented out in the source, so program
  order is execution order.
  An argument left to the default of a declaration that is not part of these
  sources is \<open>None\<close>.

  Tile indices and tile counts are far inside the range of \<open>int\<close>, and sums of them
  are written exactly. The lookahead is whatever the caller stored, so the one sum
  that can leave the range of \<open>int64_t\<close> is \<open>k+1+lookahead\<close>, the end of the
  lookahead loop and the first column of the trailing update. \<open>getrf_ca_ops\<close>
  lists the calls with that sum taken exactly; \<open>getrf_ca_ops_int64\<close>, further down,
  lists them with the sum as the \<open>int64_t\<close> addition gives it and with the tag of
  the trailing row swaps narrowed to \<open>int\<close>, as \<open>int tag_kl1 = k+1+lookahead\<close> does.
  The two lists have the same effect whenever \<open>min A_mt A_nt + lookahead\<close> is below
  \<open>2^63\<close> (lemma \<open>getrf_ca_specialization_int64_exact\<close>), and are the same list when
  moreover the lookahead is not negative and \<open>A_nt\<close> is at most \<open>2^31\<close> (lemma
  \<open>getrf_ca_ops_int64_exact\<close>); the functions that take an options map run the second.
\<close>

datatype Layout = ColMajor | RowMajor

type_synonym region = "int \<times> int \<times> int \<times> int"

datatype op =
    AllocateBatchArrays
  | ReserveDeviceWorkspace
  | PivotsResize int
  | EmptyLike
  | PivotResize int int
  | InsertLocalTiles int
  | PanelFactor int int int int int
  | MPI_Bcast int "int \<times> int"
  | PermuteRows Target int int int Layout "int option" "int option" "int option"
  | CopyDiag int
  | ListBcast Target int "region list" Layout int int bool
  | ClearPanel int
  | TrsmRight Target int int int
  | ListBcastMT Target "(int \<times> int \<times> region \<times> int) list" Layout "int option" "bool option"
  | TrsmLeft Target int int int int int
  | TileBcast int int region Layout int
  | Gemm Target int int int Layout int int
  | DeviceReleaseDiag int
  | DeviceReleasePanel int
  | TileUpdateAllOrigin
  | ClearWorkspace

text \<open>
  \<^item> \<open>PivotsResize n\<close>: \<open>pivots.resize(n)\<close>; \<open>PivotResize k n\<close>: \<open>pivots.at(k).resize(n)\<close>.
  \<^item> \<open>EmptyLike\<close>: \<open>Awork = A.emptyLike()\<close>.
  \<^item> \<open>InsertLocalTiles k\<close>: \<open>Apanel = Awork.sub(k, A_mt-1, k, k); Apanel.insertLocalTiles()\<close>.
  \<^item> \<open>PanelFactor k diag_len ib max_panel_threads priority\<close>: the panel kernel
    \<open>internal::getrf_ca<Target::HostTask>\<close> on \<open>A.sub(k, A_mt-1, k, k)\<close>, \<open>Apanel\<close> and
    \<open>pivots.at(k)\<close>.
  \<^item> \<open>MPI_Bcast k (i, j)\<close>: \<open>MPI_Bcast(pivots.at(k).data(), sizeof(Pivot)*pivots.at(k).size(),
    MPI_BYTE, A.tileRank(i, j), A.mpiComm())\<close>.
  \<^item> \<open>PermuteRows target k j1 j2 layout priority tag queue\<close>:
    \<open>internal::permuteRows<target>(Direction::Forward, A.sub(k, A_mt-1, j1, j2), pivots.at(k), ...)\<close>.
  \<^item> \<open>CopyDiag k\<close>: \<open>internal::copy(Apanel.sub(0, 0, 0, 0), A.sub(k, k, k, k))\<close>.
  \<^item> \<open>ListBcast target k dests layout tag life_factor is_shared\<close>: \<open>A.listBcast<target>\<close>
    of the one entry \<open>{k, k, dests}\<close>.
  \<^item> \<open>ClearPanel k\<close>: \<open>Apanel.clear()\<close>.
  \<^item> \<open>TrsmRight target k priority queue\<close>: \<open>internal::trsm<target>(Side::Right, 1.0, Tkk,
    A.sub(k+1, A_mt-1, k, k), ...)\<close>, \<open>Tkk\<close> the upper, non-unit triangle of \<open>A(k, k)\<close>.
  \<^item> \<open>ListBcastMT target entries layout life_factor is_shared\<close>: \<open>A.listBcastMT<target>\<close>,
    an entry \<open>(i, j, dest, tag)\<close> sending tile \<open>A(i, j)\<close> to \<open>dest\<close> under \<open>tag\<close>.
  \<^item> \<open>TrsmLeft target k j1 j2 priority queue\<close>: \<open>internal::trsm<target>(Side::Left, 1.0, Tkk,
    A.sub(k, k, j1, j2), ...)\<close>, \<open>Tkk\<close> the lower, unit triangle of \<open>A(k, k)\<close>.
  \<^item> \<open>TileBcast k j dest layout tag\<close>: \<open>A.tileBcast(k, j, dest, layout, tag)\<close>.
  \<^item> \<open>Gemm target k j1 j2 layout priority queue\<close>: \<open>internal::gemm<target>(-1.0,
    A.sub(k+1, A_mt-1, k, k), A.sub(k, k, j1, j2), 1.0, A.sub(k+1, A_mt-1, j1, j2), ...)\<close>.
  \<^item> \<open>DeviceReleaseDiag k\<close>, \<open>DeviceReleasePanel k\<close>: the two device-release tasks.
\<close>

definition target_layout :: "Target \<Rightarrow> Layout" where
  "target_layout target = (if target = Devices then RowMajor else ColMajor)"

definition host_layout :: Layout where
  "host_layout = ColMajor"

definition priority_one :: int where
  "priority_one = 1"

definition priority_zero :: int where
  "priority_zero = 0"

definition life_factor_one :: int where
  "life_factor_one = 1"

definition is_shared :: "int \<Rightarrow> bool" where
  "is_shared la = (la > 0)"

text \<open>The panel task of step \<open>k\<close>, up to \<open>Apanel.clear()\<close>.\<close>

definition panel_ops ::
  "Target \<Rightarrow> int \<Rightarrow> int \<Rightarrow> (int \<Rightarrow> int) \<Rightarrow> (int \<Rightarrow> int) \<Rightarrow> int \<Rightarrow> int \<Rightarrow> int \<Rightarrow> op list" where
  "panel_ops target A_mt A_nt tileMb tileNb ib' mpt k =
     (let diag_len = min (tileMb k) (tileNb k) in
      [PivotResize k diag_len,
       InsertLocalTiles k,
       PanelFactor k diag_len ib' mpt priority_one,
       MPI_Bcast k (k, k),
       PermuteRows HostTask k k k host_layout (Some priority_one) (Some (k + 1)) (Some 0),
       CopyDiag k,
       ListBcast target k [(k + 1, A_mt - 1, k, k), (k, k, k + 1, A_nt - 1)]
         host_layout k life_factor_one True,
       ClearPanel k])"

text \<open>The second block: the solve below the diagonal and the broadcast of the panel tiles.\<close>

definition panel_bcast_list :: "int \<Rightarrow> int \<Rightarrow> int \<Rightarrow> (int \<times> int \<times> region \<times> int) list" where
  "panel_bcast_list A_mt A_nt k = map (\<lambda>i. (i, k, (i, i, k + 1, A_nt - 1), i)) [k + 1 .. A_mt - 1]"

definition solve_ops :: "Target \<Rightarrow> int \<Rightarrow> int \<Rightarrow> int \<Rightarrow> int \<Rightarrow> op list" where
  "solve_ops target A_mt A_nt la k =
     [TrsmRight target k priority_one 0,
      ListBcastMT target (panel_bcast_list A_mt A_nt k) ColMajor
        (Some life_factor_one) (Some (is_shared la))]"

text \<open>The body of the lookahead loop for column \<open>j\<close>.\<close>

definition lookahead_ops :: "Target \<Rightarrow> int \<Rightarrow> int \<Rightarrow> int \<Rightarrow> op list" where
  "lookahead_ops target A_mt k j =
     [PermuteRows target k j j (target_layout target) (Some priority_one) (Some j) (Some (j - k + 1)),
      TrsmLeft target k j j priority_one (j - k + 1),
      TileBcast k j (k + 1, A_mt - 1, j, j) ColMajor j,
      Gemm target k j j (target_layout target) priority_one (j - k + 1)]"

text \<open>The trailing update, run when \<open>k+1+lookahead < A_nt\<close>.\<close>

definition trailing_bcast_list :: "int \<Rightarrow> int \<Rightarrow> int \<Rightarrow> int \<Rightarrow> (int \<times> int \<times> region \<times> int) list" where
  "trailing_bcast_list A_mt A_nt la k =
     map (\<lambda>j. (k, j, (k + 1, A_mt - 1, j, j), j + A_mt)) [k + 1 + la .. A_nt - 1]"

definition trailing_ops :: "Target \<Rightarrow> int \<Rightarrow> int \<Rightarrow> int \<Rightarrow> int \<Rightarrow> op list" where
  "trailing_ops target A_mt A_nt la k =
     (if k + 1 + la < A_nt then
        [PermuteRows HostTask k (k + 1 + la) (A_nt - 1) host_layout
           (Some priority_zero) (Some (k + 1 + la)) (Some 1),
         TrsmLeft target k (k + 1 + la) (A_nt - 1) priority_zero 1,
         ListBcastMT target (trailing_bcast_list A_mt A_nt la k) ColMajor None None,
         Gemm target k (k + 1 + la) (A_nt - 1) (target_layout target) priority_zero 1]
      else [])"

definition release_ops :: "Target \<Rightarrow> int \<Rightarrow> int \<Rightarrow> op list" where
  "release_ops target la k =
     (if target = Devices then
        DeviceReleaseDiag k # (if is_shared la then [DeviceReleasePanel k] else [])
      else [])"

text \<open>One iteration of the factorization loop.\<close>

definition step_ops ::
  "Target \<Rightarrow> int \<Rightarrow> int \<Rightarrow> (int \<Rightarrow> int) \<Rightarrow> (int \<Rightarrow> int) \<Rightarrow> int \<Rightarrow> int \<Rightarrow> int \<Rightarrow> int \<Rightarrow> op list" where
  "step_ops target A_mt A_nt tileMb tileNb ib' mpt la k =
     panel_ops target A_mt A_nt tileMb tileNb ib' mpt k
     @ solve_ops target A_mt A_nt la k
     @ concat (map (lookahead_ops target A_mt k) [k + 1 .. min (k + la) (A_nt - 1)])
     @ trailing_ops target A_mt A_nt la k
     @ release_ops target la k"

text \<open>The loop that pivots to the left of the panel.\<close>

definition left_ops :: "int \<Rightarrow> op list" where
  "left_ops k = (if k > 0 then [PermuteRows HostTask k 0 (k - 1) host_layout None None None] else [])"

definition setup_ops :: "Target \<Rightarrow> int \<Rightarrow> op list" where
  "setup_ops target min_mt_nt =
     (if target = Devices then [AllocateBatchArrays, ReserveDeviceWorkspace] else [])
     @ [PivotsResize min_mt_nt, EmptyLike]"

definition getrf_ca_ops ::
  "Target \<Rightarrow> int \<Rightarrow> int \<Rightarrow> (int \<Rightarrow> int) \<Rightarrow> (int \<Rightarrow> int) \<Rightarrow> int \<Rightarrow> int \<Rightarrow> int \<Rightarrow> op list" where
  "getrf_ca_ops target A_mt A_nt tileMb tileNb ib' mpt la =
     (let min_mt_nt = min A_mt A_nt in
      setup_ops target min_mt_nt
      @ concat (map (step_ops target A_mt A_nt tileMb tileNb ib' mpt la) [0 .. min_mt_nt - 1])
      @ [TileUpdateAllOrigin]
      @ concat (map left_ops [0 .. min_mt_nt - 1])
      @ [ClearWorkspace])"

text \<open>
  The same calls with \<open>k+1+lookahead\<close> in \<open>int64_t\<close>: the lookahead loop runs while
  \<open>j < k+1+lookahead && j < A_nt\<close>, and the trailing update tests
  \<open>k+1+lookahead < A_nt\<close> and starts at column \<open>k+1+lookahead\<close>; the tag of its row
  swaps is that sum stored in an \<open>int\<close>.
\<close>

definition trailing_bcast_list_int64 ::
  "int \<Rightarrow> int \<Rightarrow> int \<Rightarrow> int \<Rightarrow> (int \<times> int \<times> region \<times> int) list" where
  "trailing_bcast_list_int64 A_mt A_nt la k =
     map (\<lambda>j. (k, j, (k + 1, A_mt - 1, j, j), j + A_mt)) [int64 (k + 1 + la) .. A_nt - 1]"

definition trailing_ops_int64 :: "Target \<Rightarrow> int \<Rightarrow> int \<Rightarrow> int \<Rightarrow> int \<Rightarrow> op list" where
  "trailing_ops_int64 target A_mt A_nt la k =
     (if int64 (k + 1 + la) < A_nt then
        [PermuteRows HostTask k (int64 (k + 1 + la)) (A_nt - 1) host_layout
           (Some priority_zero) (Some (to_int32 (int64 (k + 1 + la)))) (Some 1),
         TrsmLeft target k (int64 (k + 1 + la)) (A_nt - 1) priority_zero 1,
         ListBcastMT target (trailing_bcast_list_int64 A_mt A_nt la k) ColMajor None None,
         Gemm target k (int64 (k + 1 + la)) (A_nt - 1) (target_layout target) priority_zero 1]
      else [])"

definition step_ops_int64 ::
  "Target \<Rightarrow> int \<Rightarrow> int \<Rightarrow> (int \<Rightarrow> int) \<Rightarrow> (int \<Rightarrow> int) \<Rightarrow> int \<Rightarrow> int \<Rightarrow> int \<Rightarrow> int \<Rightarrow> op list" where
  "step_ops_int64 target A_mt A_nt tileMb tileNb ib' mpt la k =
     panel_ops target A_mt A_nt tileMb tileNb ib' mpt k
     @ solve_ops target A_mt A_nt la k
     @ concat (map (lookahead_ops target A_mt k)
                 [k + 1 .. min (int64 (k + 1 + la) - 1) (A_nt - 1)])
     @ trailing_ops_int64 target A_mt A_nt la k
     @ release_ops target la k"

definition getrf_ca_ops_int64 ::
  "Target \<Rightarrow> int \<Rightarrow> int \<Rightarrow> (int \<Rightarrow> int) \<Rightarrow> (int \<Rightarrow> int) \<Rightarrow> int \<Rightarrow> int \<Rightarrow> int \<Rightarrow> op list" where
  "getrf_ca_ops_int64 target A_mt A_nt tileMb tileNb ib' mpt la =
     (let min_mt_nt = min A_mt A_nt in
      setup_ops target min_mt_nt
      @ concat (map (step_ops_int64 target A_mt A_nt tileMb tileNb ib' mpt la) [0 .. min_mt_nt - 1])
      @ [TileUpdateAllOrigin]
      @ concat (map left_ops [0 .. min_mt_nt - 1])
      @ [ClearWorkspace])"

section \<open>getrf_ca: the effect of each call\<close>

text \<open>
  The state is the logical content of the matrix (a tile for every tile coordinate,
  whichever process owns it), the tiles of the workspace \<open>Awork\<close> that exist, and the
  pivot table. The tile type \<open>'a\<close> and the pivot type \<open>'p\<close> are left open.

  The compute kernels \<open>internal::getrf_ca\<close>, \<open>internal::permuteRows\<close>,
  \<open>internal::trsm\<close> and \<open>internal::gemm\<close> are not part of these sources; what they do
  to one tile, or to one tile column, is a field of \<open>kernels\<close>.
  \<^item> \<open>Pivot0\<close>: a default-constructed \<open>Pivot\<close>; \<open>blank_tile\<close>: a freshly inserted tile.
  \<^item> \<open>getrf_ca_panel col diag_len ib max_panel_threads pivot\<close>: the panel kernel on the
    tiles \<open>col\<close> of \<open>A(k:mt-1, k)\<close>; returns those tiles, the workspace tiles and the
    pivot vector as it leaves them.
  \<^item> \<open>permuteRows pivot col\<close>: the row swaps of \<open>pivot\<close> on one tile column.
  \<^item> \<open>trsm_Right Akk t\<close>, \<open>trsm_Left Akk t\<close>: the triangular solves of one tile \<open>t\<close>.
  \<^item> \<open>gemm a b c\<close>: \<open>c - a * b\<close> on tiles.
\<close>

record ('a, 'p) kernels =
  Pivot0 :: 'p
  blank_tile :: 'a
  getrf_ca_panel :: "'a list \<Rightarrow> int \<Rightarrow> int \<Rightarrow> int \<Rightarrow> 'p list \<Rightarrow> 'a list \<times> 'a list \<times> 'p list"
  permuteRows :: "'p list \<Rightarrow> 'a list \<Rightarrow> 'a list"
  trsm_Right :: "'a \<Rightarrow> 'a \<Rightarrow> 'a"
  trsm_Left :: "'a \<Rightarrow> 'a \<Rightarrow> 'a"
  gemm :: "'a \<Rightarrow> 'a \<Rightarrow> 'a \<Rightarrow> 'a"

record ('a, 'p) state =
  matA :: "int \<times> int \<Rightarrow> 'a"
  Awork :: "int \<times> int \<Rightarrow> 'a option"
  pivots :: "'p list list"

text \<open>\<open>std::vector::resize\<close>.\<close>

definition resize :: "nat \<Rightarrow> 'x \<Rightarrow> 'x list \<Rightarrow> 'x list" where
  "resize n d xs = take n xs @ replicate (n - length xs) d"

text \<open>The tiles of rows \<open>i1..i2\<close> of tile column \<open>j\<close>, and writing such a column back.\<close>

definition get_col :: "(int \<times> int \<Rightarrow> 'a) \<Rightarrow> int \<Rightarrow> int \<Rightarrow> int \<Rightarrow> 'a list" where
  "get_col M i1 i2 j = map (\<lambda>i. M (i, j)) [i1 .. i2]"

definition put_col :: "(int \<times> int \<Rightarrow> 'a) \<Rightarrow> int \<Rightarrow> int \<Rightarrow> int \<Rightarrow> 'a list \<Rightarrow> int \<times> int \<Rightarrow> 'a" where
  "put_col M i1 i2 j xs =
     (\<lambda>(i, j'). if j' = j \<and> i1 \<le> i \<and> i \<le> i2 \<and> nat (i - i1) < length xs
                then xs ! nat (i - i1) else M (i, j'))"

text \<open>
  Modelled from the spec: \<open>internal::permuteRows\<close>, \<open>internal::trsm\<close> and
  \<open>internal::gemm\<close> on a block of tiles, which are not part of these sources. The
  row permutation applies the swaps to every column in range, so a block is permuted
  tile column by tile column; the solve and the multiply-accumulate of a step work
  tile by tile against the diagonal tile \<open>A(k, k)\<close>, the panel tile \<open>A(i, k)\<close> and the row
  tile \<open>A(k, j)\<close>. The target and the layout of a call select the backend that runs
  the kernel, not the values it computes, so they do not appear.
\<close>

definition permute_block ::
  "('a, 'p) kernels \<Rightarrow> 'p list \<Rightarrow> int \<Rightarrow> int \<Rightarrow> int \<Rightarrow> int \<Rightarrow> (int \<times> int \<Rightarrow> 'a) \<Rightarrow> int \<times> int \<Rightarrow> 'a" where
  "permute_block K pivot i1 i2 j1 j2 M =
     (\<lambda>(i, j). if j1 \<le> j \<and> j \<le> j2
               then put_col M i1 i2 j (permuteRows K pivot (get_col M i1 i2 j)) (i, j)
               else M (i, j))"

definition trsm_Right_block ::
  "('a, 'p) kernels \<Rightarrow> int \<Rightarrow> int \<Rightarrow> (int \<times> int \<Rightarrow> 'a) \<Rightarrow> int \<times> int \<Rightarrow> 'a" where
  "trsm_Right_block K A_mt k M =
     (\<lambda>(i, j). if j = k \<and> k + 1 \<le> i \<and> i \<le> A_mt - 1
               then trsm_Right K (M (k, k)) (M (i, j)) else M (i, j))"

definition trsm_Left_block ::
  "('a, 'p) kernels \<Rightarrow> int \<Rightarrow> int \<Rightarrow> int \<Rightarrow> (int \<times> int \<Rightarrow> 'a) \<Rightarrow> int \<times> int \<Rightarrow> 'a" where
  "trsm_Left_block K k j1 j2 M =
     (\<lambda>(i, j). if i = k \<and> j1 \<le> j \<and> j \<le> j2
               then trsm_Left K (M (k, k)) (M (i, j)) else M (i, j))"

definition gemm_block ::
  "('a, 'p) kernels \<Rightarrow> int \<Rightarrow> int \<Rightarrow> int \<Rightarrow> int \<Rightarrow> (int \<times> int \<Rightarrow> 'a) \<Rightarrow> int \<times> int \<Rightarrow> 'a" where
  "gemm_block K A_mt k j1 j2 M =
     (\<lambda>(i, j). if k + 1 \<le> i \<and> i \<le> A_mt - 1 \<and> j1 \<le> j \<and> j \<le> j2
               then gemm K (M (i, k)) (M (k, j)) (M (i, j)) else M (i, j))"

text \<open>
  Modelled from the spec: the call of the panel kernel \<open>internal::getrf_ca\<close>, which is
  not part of these sources. It is given the panel column of \<open>A\<close>, the workspace panel
  and \<open>pivots.at(k)\<close> and may write all three; workspace tiles that do not exist are
  not created.
\<close>

definition panel_factor ::
  "('a, 'p) kernels \<Rightarrow> int \<Rightarrow> int \<Rightarrow> int \<Rightarrow> int \<Rightarrow> int \<Rightarrow> ('a, 'p) state \<Rightarrow> ('a, 'p) state" where
  "panel_factor K A_mt k diag_len ib' mpt s =
     (case getrf_ca_panel K (get_col (matA s) k (A_mt - 1) k) diag_len ib' mpt (pivots s ! nat k) of
        (Acol, Wcol, pivot) \<Rightarrow>
          s\<lparr>matA := put_col (matA s) k (A_mt - 1) k Acol,
            Awork := (\<lambda>(i, j). if j = k \<and> k \<le> i \<and> i \<le> A_mt - 1 \<and> nat (i - k) < length Wcol
                                  \<and> Awork s (i, j) \<noteq> None
                               then Some (Wcol ! nat (i - k)) else Awork s (i, j)),
            pivots := (pivots s)[nat k := pivot]\<rparr>)"

text \<open>
  Broadcasts and the device bookkeeping replicate or release copies of tiles; the
  logical content does not change. \<open>insertLocalTiles\<close> creates on each process the
  tiles it owns, so over all processes every tile of the panel; \<open>internal::copy\<close>
  copies a tile that exists; \<open>Apanel.clear()\<close> removes the tiles of the panel.
\<close>

fun exec :: "('a, 'p) kernels \<Rightarrow> int \<Rightarrow> op \<Rightarrow> ('a, 'p) state \<Rightarrow> ('a, 'p) state" where
  "exec K A_mt (PivotsResize n) s = s\<lparr>pivots := resize (nat n) [] (pivots s)\<rparr>"
| "exec K A_mt EmptyLike s = s\<lparr>Awork := (\<lambda>_. None)\<rparr>"
| "exec K A_mt (PivotResize k n) s =
     s\<lparr>pivots := (pivots s)[nat k := resize (nat n) (Pivot0 K) (pivots s ! nat k)]\<rparr>"
| "exec K A_mt (InsertLocalTiles k) s =
     s\<lparr>Awork := (\<lambda>(i, j). if j = k \<and> k \<le> i \<and> i \<le> A_mt - 1 then Some (blank_tile K)
                          else Awork s (i, j))\<rparr>"
| "exec K A_mt (PanelFactor k diag_len ib' mpt priority) s = panel_factor K A_mt k diag_len ib' mpt s"
| "exec K A_mt (PermuteRows target k j1 j2 layout priority tag queue) s =
     s\<lparr>matA := permute_block K (pivots s ! nat k) k (A_mt - 1) j1 j2 (matA s)\<rparr>"
| "exec K A_mt (CopyDiag k) s =
     (case Awork s (k, k) of
        None \<Rightarrow> s
      | Some t \<Rightarrow> s\<lparr>matA := (matA s)((k, k) := t)\<rparr>)"
| "exec K A_mt (ClearPanel k) s =
     s\<lparr>Awork := (\<lambda>(i, j). if j = k \<and> k \<le> i \<and> i \<le> A_mt - 1 then None else Awork s (i, j))\<rparr>"
| "exec K A_mt (TrsmRight target k priority queue) s =
     s\<lparr>matA := trsm_Right_block K A_mt k (matA s)\<rparr>"
| "exec K A_mt (TrsmLeft target k j1 j2 priority queue) s =
     s\<lparr>matA := trsm_Left_block K k j1 j2 (matA s)\<rparr>"
| "exec K A_mt (Gemm target k j1 j2 layout priority queue) s =
     s\<lparr>matA := gemm_block K A_mt k j1 j2 (matA s)\<rparr>"
| "exec K A_mt AllocateBatchArrays s = s"
| "exec K A_mt ReserveDeviceWorkspace s = s"
| "exec K A_mt (MPI_Bcast k r) s = s"
| "exec K A_mt (ListBcast target k dests layout tag life shared) s = s"
| "exec K A_mt (ListBcastMT target entries layout life shared) s = s"
| "exec K A_mt (TileBcast k j dest layout tag) s = s"
| "exec K A_mt (DeviceReleaseDiag k) s = s"
| "exec K A_mt (DeviceReleasePanel k) s = s"
| "exec K A_mt TileUpdateAllOrigin s = s"
| "exec K A_mt ClearWorkspace s = s"

definition run :: "('a, 'p) kernels \<Rightarrow> int \<Rightarrow> op list \<Rightarrow> ('a, 'p) state \<Rightarrow> ('a, 'p) state" where
  "run K A_mt ops s = foldl (\<lambda>s' c. exec K A_mt c s') s ops"

text \<open>
  \<open>internal::specialization::getrf_ca\<close>: \<open>A_mt\<close>, \<open>A_nt\<close>, \<open>tileMb\<close> and \<open>tileNb\<close> are the
  shape of \<open>A\<close>. The function is \<open>void\<close>: what the caller gets back is \<open>A\<close> and \<open>pivots\<close>.
  \<open>getrf_ca_specialization\<close> runs the calls with \<open>k+1+lookahead\<close> taken exactly,
  \<open>getrf_ca_specialization_int64\<close> with the sum in \<open>int64_t\<close>.
\<close>

definition getrf_ca_specialization ::
  "('a, 'p) kernels \<Rightarrow> Target \<Rightarrow> int \<Rightarrow> int \<Rightarrow> (int \<Rightarrow> int) \<Rightarrow> (int \<Rightarrow> int) \<Rightarrow>
   ('a, 'p) state \<Rightarrow> int \<Rightarrow> int \<Rightarrow> int \<Rightarrow> ('a, 'p) state" where
  "getrf_ca_specialization K target A_mt A_nt tileMb tileNb s ib' mpt la =
     run K A_mt (getrf_ca_ops target A_mt A_nt tileMb tileNb ib' mpt la) s"

definition getrf_ca_specialization_int64 ::
  "('a, 'p) kernels \<Rightarrow> Target \<Rightarrow> int \<Rightarrow> int \<Rightarrow> (int \<Rightarrow> int) \<Rightarrow> (int \<Rightarrow> int) \<Rightarrow>
   ('a, 'p) state \<Rightarrow> int \<Rightarrow> int \<Rightarrow> int \<Rightarrow> ('a, 'p) state" where
  "getrf_ca_specialization_int64 K target A_mt A_nt tileMb tileNb s ib' mpt la =
     run K A_mt (getrf_ca_ops_int64 target A_mt A_nt tileMb tileNb ib' mpt la) s"

text \<open>
  \<open>getrf_ca<target>(A, pivots, opts)\<close>, which narrows \<open>max_panel_threads\<close> to the \<open>int\<close>
  parameter of the specialization, and the dispatching \<open>getrf_ca(A, pivots, opts)\<close>.
\<close>

definition getrf_ca_target ::
  "('a, 'p) kernels \<Rightarrow> bool \<Rightarrow> nat \<Rightarrow> Target \<Rightarrow> int \<Rightarrow> int \<Rightarrow> (int \<Rightarrow> int) \<Rightarrow> (int \<Rightarrow> int) \<Rightarrow>
   Options \<Rightarrow> ('a, 'p) state \<Rightarrow> error + ('a, 'p) state" where
  "getrf_ca_target K ndebug omp_max target A_mt A_nt tileMb tileNb opts s =
     (case getrf_ca_options ndebug omp_max opts of
        Inl e \<Rightarrow> Inl e
      | Inr c \<Rightarrow> Inr (getrf_ca_specialization_int64 K target A_mt A_nt tileMb tileNb s
                        (ib c) (to_int32 (max_panel_threads c)) (lookahead c)))"

definition getrf_ca ::
  "('a, 'p) kernels \<Rightarrow> (Target \<Rightarrow> int) \<Rightarrow> (int \<Rightarrow> int) \<Rightarrow> bool \<Rightarrow> nat \<Rightarrow> int \<Rightarrow> int \<Rightarrow>
   (int \<Rightarrow> int) \<Rightarrow> (int \<Rightarrow> int) \<Rightarrow> Options \<Rightarrow> ('a, 'p) state \<Rightarrow> error + ('a, 'p) state" where
  "getrf_ca K target_code to_underlying ndebug omp_max A_mt A_nt tileMb tileNb opts s =
     (case select_target target_code to_underlying opts of
        None \<Rightarrow> Inr s
      | Some target \<Rightarrow> getrf_ca_target K ndebug omp_max target A_mt A_nt tileMb tileNb opts s)"

section \<open>Scalar tiles\<close>

text \<open>
  Modelled from the spec: the kernels for a matrix of block size 1, where a tile is
  one number and a panel is one column of numbers. The panel kernel, the row
  permutation, the triangular solves and the multiply are not part of these
  sources. A pivot record is a pair (source row, swap-target row) of rows counted
  from the top of the panel; the panel factorizer picks the first element of
  maximal magnitude and leaves the pivot row on top of the workspace column; the
  unit lower triangle of a 1-by-1 tile is 1, so the left solve changes nothing, and
  the right solve divides by the diagonal element.
\<close>

definition swap_rows :: "nat \<times> nat \<Rightarrow> 'a list \<Rightarrow> 'a list" where
  "swap_rows p xs =
     (case p of (r1, r2) \<Rightarrow>
        if r1 < length xs \<and> r2 < length xs then xs[r1 := xs ! r2, r2 := xs ! r1] else xs)"

definition apply_pivots :: "(nat \<times> nat) list \<Rightarrow> 'a list \<Rightarrow> 'a list" where
  "apply_pivots pivot xs = foldl (\<lambda>ys p. swap_rows p ys) xs pivot"

fun first_max :: "rat list \<Rightarrow> nat" where
  "first_max [] = 0"
| "first_max (x # xs) = (if list_all (\<lambda>y. \<bar>y\<bar> \<le> \<bar>x\<bar>) xs then 0 else Suc (first_max xs))"

definition scalar_panel ::
  "rat list \<Rightarrow> int \<Rightarrow> int \<Rightarrow> int \<Rightarrow> (nat \<times> nat) list \<Rightarrow> rat list \<times> rat list \<times> (nat \<times> nat) list" where
  "scalar_panel col diag_len ib' mpt pivot =
     (let p = first_max col in
      (col, swap_rows (0, p) col, (case pivot of [] \<Rightarrow> [] | _ # ps \<Rightarrow> (0, p) # ps)))"

definition scalar_kernels :: "(rat, nat \<times> nat) kernels" where
  "scalar_kernels =
     \<lparr>Pivot0 = (0, 0), blank_tile = 0, getrf_ca_panel = scalar_panel,
      permuteRows = apply_pivots,
      trsm_Right = (\<lambda>akk t. t / akk), trsm_Left = (\<lambda>akk t. t),
      gemm = (\<lambda>a b c. c - a * b)\<rparr>"

text \<open>
  Block size 1: every tile is 1-by-1. The identity matrix and the zero matrix, each
  with an empty pivot table and no workspace.
\<close>

definition block_size_1 :: "int \<Rightarrow> int" where
  "block_size_1 k = 1"

definition identity_tiles :: "int \<times> int \<Rightarrow> rat" where
  "identity_tiles = (\<lambda>(i, j). if i = j then 1 else 0)"

definition identity_state :: "(rat, nat \<times> nat) state" where
  "identity_state = \<lparr>matA = identity_tiles, Awork = (\<lambda>_. None), pivots = []\<rparr>"

definition zero_state :: "(rat, nat \<times> nat) state" where
  "zero_state = \<lparr>matA = (\<lambda>_. 0), Awork = (\<lambda>_. None), pivots = []\<rparr>"



section \<open>Stand-ins for the phases of gbsv\<close>

text \<open>
  Two phases that record the options they are given, and a code for the targets;
  they serve to run \<open>gbsv\<close> on concrete inputs. The band matrix is a counter of the
  factorizations done, the pivots are the options \<open>gbtrf\<close> got, and the right-hand
  side collects the options \<open>gbtrs\<close> got followed by the pivots it was handed.
\<close>

definition recording_gbtrf :: "Options \<Rightarrow> nat \<times> int option list \<Rightarrow> nat \<times> int option list" where
  "recording_gbtrf opts s =
     (case s of (A, pv) \<Rightarrow>
        (A + 1, [opts Lookahead, opts Target, opts InnerBlocking, opts MaxPanelThreads]))"

definition recording_gbtrs ::
  "Options \<Rightarrow> nat \<times> int option list \<times> int option list \<Rightarrow> nat \<times> int option list \<times> int option list" where
  "recording_gbtrs opts s =
     (case s of (A, pv, B) \<Rightarrow> (A, pv, B @ [opts Lookahead, opts Target] @ pv))"

fun letter_code :: "Target \<Rightarrow> int" where
  "letter_code Host = 72"
| "letter_code HostTask = 84"
| "letter_code HostNest = 78"
| "letter_code HostBatch = 66"
| "letter_code Devices = 68"

section \<open>Tags and the order of calls\<close>

text \<open>The tags an \<open>MPI\<close> call or a tile broadcast is given; \<open>MPI_Bcast\<close> takes none.\<close>

definition bcast_tags :: "(int \<times> int \<times> region \<times> int) list \<Rightarrow> int set" where
  "bcast_tags entries = set (map (\<lambda>(i, j, dest, tag). tag) entries)"

fun op_tags :: "op \<Rightarrow> int list" where
  "op_tags (PermuteRows target k j1 j2 layout priority tag queue) =
     (case tag of None \<Rightarrow> [] | Some t \<Rightarrow> [t])"
| "op_tags (ListBcast target k dests layout tag life shared) = [tag]"
| "op_tags (ListBcastMT target entries layout life shared) = map (\<lambda>(i, j, dest, tag). tag) entries"
| "op_tags (TileBcast k j dest layout tag) = [tag]"
| "op_tags c = []"

text \<open>
  A scan of a call sequence: every \<open>permuteRows\<close> with the pivots of panel \<open>k\<close> comes
  after an \<open>MPI_Bcast\<close> of those pivots rooted at the owner of tile \<open>(k, k)\<close>. \<open>S\<close> holds
  the panels broadcast so far.
\<close>

fun swaps_follow_bcast :: "int set \<Rightarrow> op list \<Rightarrow> bool" where
  "swaps_follow_bcast S [] = True"
| "swaps_follow_bcast S (MPI_Bcast k r # ops) =
     swaps_follow_bcast (if r = (k, k) then insert k S else S) ops"
| "swaps_follow_bcast S (PermuteRows target k j1 j2 layout priority tag queue # ops) =
     (k \<in> S \<and> swaps_follow_bcast S ops)"
| "swaps_follow_bcast S (c # ops) = swaps_follow_bcast S ops"

definition bcast_of :: "op list \<Rightarrow> int set" where
  "bcast_of ops = {k. MPI_Bcast k (k, k) \<in> set ops}"


section \<open>Observations used by the properties\<close>

text \<open>The workspace tiles that exist, and the tile coordinates of panel \<open>k\<close>.\<close>

definition allocated :: "('a, 'p) state \<Rightarrow> (int \<times> int) set" where
  "allocated s = {c. Awork s c \<noteq> None}"

definition panel_tiles :: "int \<Rightarrow> int \<Rightarrow> (int \<times> int) set" where
  "panel_tiles A_mt k = {(i, j). j = k \<and> k \<le> i \<and> i \<le> A_mt - 1}"

text \<open>The calls that touch the workspace, and the calls that touch the pivot table.\<close>

fun workspace_op :: "op \<Rightarrow> bool" where
  "workspace_op EmptyLike = True"
| "workspace_op (InsertLocalTiles k) = True"
| "workspace_op (PanelFactor k diag_len ib' mpt priority) = True"
| "workspace_op (ClearPanel k) = True"
| "workspace_op c = False"

fun pivot_op :: "op \<Rightarrow> bool" where
  "pivot_op (PivotsResize n) = True"
| "pivot_op (PivotResize k n) = True"
| "pivot_op (PanelFactor k diag_len ib' mpt priority) = True"
| "pivot_op c = False"

text \<open>
  The index \<open>k\<close> of the \<open>pivots.at(k)\<close> a call evaluates. \<open>std::vector::at\<close> throws when
  the index is out of range, and \<open>exec\<close> reads \<open>pivots s ! nat k\<close>; lemma
  \<open>pivots_at_in_range\<close> below shows that in a run of \<open>getrf_ca\<close> the index is always in
  range.
\<close>

fun pivots_at :: "op \<Rightarrow> int option" where
  "pivots_at (PivotResize k n) = Some k"
| "pivots_at (PanelFactor k diag_len ib' mpt priority) = Some k"
| "pivots_at (MPI_Bcast k r) = Some k"
| "pivots_at (PermuteRows target k j1 j2 layout priority tag queue) = Some k"
| "pivots_at c = None"

text \<open>
  The panel kernel is handed \<open>pivots.at(k)\<close> by reference after the driver has
  resized it; \<open>keeps_size\<close> says that the kernel fills the vector and does not resize it.
\<close>

definition keeps_size :: "('a, 'p) kernels \<Rightarrow> bool" where
  "keeps_size K = (\<forall>col diag_len b t pivot.
      length (snd (snd (getrf_ca_panel K col diag_len b t pivot))) = length pivot)"

text \<open>The lengths of the pivot sequences.\<close>

definition sizes :: "('a, 'p) state \<Rightarrow> nat list" where
  "sizes s = map length (pivots s)"

text \<open>What follows the panel task in one iteration.\<close>

definition update_ops :: "Target \<Rightarrow> int \<Rightarrow> int \<Rightarrow> int \<Rightarrow> int \<Rightarrow> op list" where
  "update_ops target A_mt A_nt la k =
     solve_ops target A_mt A_nt la k
     @ concat (map (lookahead_ops target A_mt k) [k + 1 .. min (k + la) (A_nt - 1)])
     @ trailing_ops target A_mt A_nt la k
     @ release_ops target la k"

text \<open>
  What one step does to a column \<open>j\<close> right of the panel: the row swaps on the
  column, the left solve of its tile in row \<open>k\<close>, and the multiply into the rows
  below, each read off the matrix \<open>M\<close> the step starts from. \<open>update_columns\<close> does
  this to every column of a set.
\<close>

definition column_result ::
  "('a, 'p) kernels \<Rightarrow> 'p list \<Rightarrow> int \<Rightarrow> int \<Rightarrow> (int \<times> int \<Rightarrow> 'a) \<Rightarrow> int \<times> int \<Rightarrow> 'a" where
  "column_result K pivot A_mt k M =
     (\<lambda>(i, j).
        let p = (\<lambda>i'. put_col M k (A_mt - 1) j (permuteRows K pivot (get_col M k (A_mt - 1) j)) (i', j));
            u = trsm_Left K (M (k, k)) (p k)
        in if i = k then u
           else if k + 1 \<le> i \<and> i \<le> A_mt - 1 then gemm K (M (i, k)) u (p i)
           else p i)"

definition update_columns ::
  "('a, 'p) kernels \<Rightarrow> 'p list \<Rightarrow> int \<Rightarrow> int \<Rightarrow> int set \<Rightarrow> (int \<times> int \<Rightarrow> 'a) \<Rightarrow> int \<times> int \<Rightarrow> 'a" where
  "update_columns K pivot A_mt k J M =
     (\<lambda>(i, j). if j \<in> J then column_result K pivot A_mt k M (i, j) else M (i, j))"

section \<open>Properties of the option handling\<close>

lemma to_int32_exact: "- (2 ^ 31) \<le> x \<Longrightarrow> x < 2 ^ 31 \<Longrightarrow> to_int32 x = x"
  by (simp add: to_int32_def)

lemma int64_exact: "- (2 ^ 63) \<le> x \<Longrightarrow> x < 2 ^ 63 \<Longrightarrow> int64 x = x"
  by (simp add: int64_def)

text \<open>What the three \<open>try\<close> blocks of \<open>getrf_ca\<close> leave in the three variables.\<close>

lemma getrf_ca_options_eq:
  "getrf_ca_options ndebug omp_max opts =
     (if ndebug \<or>
         ((case opts Lookahead of None \<Rightarrow> True | Some v \<Rightarrow> 0 \<le> v) \<and>
          (case opts InnerBlocking of None \<Rightarrow> True | Some v \<Rightarrow> 0 \<le> v) \<and>
          (case opts MaxPanelThreads of None \<Rightarrow> True | Some v \<Rightarrow> 1 \<le> v \<and> v \<le> int omp_max))
      then Inr \<lparr>lookahead = (case opts Lookahead of None \<Rightarrow> 1 | Some v \<Rightarrow> v),
                ib = (case opts InnerBlocking of None \<Rightarrow> 16 | Some v \<Rightarrow> v),
                max_panel_threads =
                  (case opts MaxPanelThreads of None \<Rightarrow> max (int omp_max div 2) 1 | Some v \<Rightarrow> v)\<rparr>
      else Inl AssertionFailed)"
  by (auto simp: getrf_ca_options_def opt_at_def default_max_panel_threads_def
           split: option.splits)

text \<open>
  C3, as the code has it: \<open>getrf_ca\<close> takes the default of an option exactly when the
  option is missing from the map (lookahead 1, inner blocking 16, panel threads
  \<open>max (omp_get_max_threads()/2) 1\<close>). A value that is present is never replaced by
  the default. With assertions compiled in, a present value that fails its
  assertion aborts the call. In every other case the factorization is run with the
  lookahead and the inner blocking as they are in the map and with the panel
  threads narrowed from \<open>int64_t\<close> to \<open>int\<close>, that is reduced modulo \<open>2^32\<close> into the
  range of \<open>int\<close>, which leaves a value that fits unchanged.
\<close>

theorem getrf_ca_runs_with_stored_options:
  "getrf_ca_target K ndebug omp_max target A_mt A_nt tileMb tileNb opts s =
     (if ndebug \<or>
         ((case opts Lookahead of None \<Rightarrow> True | Some v \<Rightarrow> 0 \<le> v) \<and>
          (case opts InnerBlocking of None \<Rightarrow> True | Some v \<Rightarrow> 0 \<le> v) \<and>
          (case opts MaxPanelThreads of None \<Rightarrow> True | Some v \<Rightarrow> 1 \<le> v \<and> v \<le> int omp_max))
      then Inr (getrf_ca_specialization_int64 K target A_mt A_nt tileMb tileNb s
                  (case opts InnerBlocking of None \<Rightarrow> 16 | Some v \<Rightarrow> v)
                  (to_int32 (case opts MaxPanelThreads of
                               None \<Rightarrow> max (int omp_max div 2) 1 | Some v \<Rightarrow> v))
                  (case opts Lookahead of None \<Rightarrow> 1 | Some v \<Rightarrow> v))
      else Inl AssertionFailed)"
  by (simp add: getrf_ca_target_def getrf_ca_options_eq)

theorem getrf_ca_runs_with_stored_options_witness:
  "getrf_ca_target scalar_kernels False 8 HostTask 4 4 block_size_1 block_size_1
       [InnerBlocking \<mapsto> 32] identity_state
     = Inr (getrf_ca_specialization_int64 scalar_kernels HostTask 4 4 block_size_1 block_size_1
              identity_state 32 4 1)
   \<and> getrf_ca_target scalar_kernels True 8 HostTask 4 4 block_size_1 block_size_1
       [MaxPanelThreads \<mapsto> 4294967299] identity_state
     = Inr (getrf_ca_specialization_int64 scalar_kernels HostTask 4 4 block_size_1 block_size_1
              identity_state 16 3 1)"
  using getrf_ca_runs_with_stored_options
          [of scalar_kernels False 8 HostTask 4 4 block_size_1 block_size_1
              "[InnerBlocking \<mapsto> 32]" identity_state]
        getrf_ca_runs_with_stored_options
          [of scalar_kernels True 8 HostTask 4 4 block_size_1 block_size_1
              "[MaxPanelThreads \<mapsto> 4294967299]" identity_state]
  by (simp add: to_int32_def)

text \<open>
  C3 as stated fails: with lookahead \<open>-1\<close> in the map the call aborts on the
  assertion, and with assertions compiled out the factorization is run with
  lookahead \<open>-1\<close>, not with the default 1.
\<close>

theorem negative_lookahead_counterexample:
  "getrf_ca_target scalar_kernels False 8 HostTask 4 4 block_size_1 block_size_1
       [Lookahead \<mapsto> - 1] identity_state
     = Inl AssertionFailed
   \<and> getrf_ca_options True 8 [Lookahead \<mapsto> - 1]
     = Inr \<lparr>lookahead = - 1, ib = 16, max_panel_threads = 4\<rparr>"
  by (simp add: getrf_ca_target_def getrf_ca_options_def opt_at_def default_max_panel_threads_def)

section \<open>Properties of gbsv\<close>

text \<open>What the three \<open>try\<close> blocks of \<open>gbsv\<close> leave in the three variables.\<close>

lemma gbsv_options_eq:
  "gbsv_options ndebug omp_max opts =
     (if ndebug \<or>
         ((case opts Lookahead of None \<Rightarrow> True | Some v \<Rightarrow> 0 \<le> v) \<and>
          (case opts InnerBlocking of None \<Rightarrow> True | Some v \<Rightarrow> 0 \<le> v) \<and>
          (case opts MaxPanelThreads of None \<Rightarrow> True | Some v \<Rightarrow> 0 \<le> v))
      then Inr \<lparr>lookahead = (case opts Lookahead of None \<Rightarrow> 1 | Some v \<Rightarrow> v),
                ib = (case opts InnerBlocking of None \<Rightarrow> 16 | Some v \<Rightarrow> v),
                max_panel_threads =
                  (case opts MaxPanelThreads of None \<Rightarrow> max (int omp_max div 2) 1 | Some v \<Rightarrow> v)\<rparr>
      else Inl AssertionFailed)"
  by (auto simp: gbsv_options_def opt_at_def default_max_panel_threads_def
           split: option.splits)

text \<open>
  C10, as the code has it: for every band matrix, right-hand side and options map,
  \<open>gbsv\<close> either aborts on an assertion before any phase runs, which it does exactly
  when assertions are compiled in and a value present in the map fails its
  assertion (lookahead, inner blocking or panel threads below 0), or it is \<open>gbtrf\<close>
  on the band matrix and the pivots followed by \<open>gbtrs\<close> on the factored matrix, the
  pivots \<open>gbtrf\<close> left and the right-hand side. Both phases receive the lookahead read
  once from the caller's map (1 when it is missing) and the target of the
  instantiation; \<open>gbtrf\<close> also receives the inner blocking and the panel threads
  narrowed to \<open>int\<close>.
\<close>

theorem gbsv_aborts_or_is_gbtrf_then_gbtrs:
  "gbsv_target gbtrf gbtrs target_code ndebug omp_max target opts (A, pv, B) =
     (let la = (case opts Lookahead of None \<Rightarrow> 1 | Some v \<Rightarrow> v);
          b = (case opts InnerBlocking of None \<Rightarrow> 16 | Some v \<Rightarrow> v);
          t = to_int32 (case opts MaxPanelThreads of
                          None \<Rightarrow> max (int omp_max div 2) 1 | Some v \<Rightarrow> v);
          factored = gbtrf [InnerBlocking \<mapsto> b, Lookahead \<mapsto> la, MaxPanelThreads \<mapsto> t,
                            Target \<mapsto> target_code target] (A, pv)
      in if ndebug \<or>
            ((case opts Lookahead of None \<Rightarrow> True | Some v \<Rightarrow> 0 \<le> v) \<and>
             (case opts InnerBlocking of None \<Rightarrow> True | Some v \<Rightarrow> 0 \<le> v) \<and>
             (case opts MaxPanelThreads of None \<Rightarrow> True | Some v \<Rightarrow> 0 \<le> v))
         then Inr (gbtrs [Lookahead \<mapsto> la, Target \<mapsto> target_code target]
                     (fst factored, snd factored, B))
         else Inl AssertionFailed)"
  by (simp add: gbsv_target_def gbsv_options_eq gbsv_specialization_def Let_def
        split: prod.splits)

theorem gbsv_aborts_or_is_gbtrf_then_gbtrs_witness:
  "gbsv_target recording_gbtrf recording_gbtrs letter_code False 8 HostNest [Lookahead \<mapsto> 2]
       (0, [], [])
     = Inr (1, [Some 2, Some 78, Some 16, Some 4],
            [Some 2, Some 78, Some 2, Some 78, Some 16, Some 4])"
  using gbsv_aborts_or_is_gbtrf_then_gbtrs
          [of recording_gbtrf recording_gbtrs letter_code False 8 HostNest "[Lookahead \<mapsto> 2]"
              0 "[]" "[]"]
  by (simp add: recording_gbtrf_def recording_gbtrs_def to_int32_def Let_def)

text \<open>
  C10 as stated fails: with lookahead \<open>-1\<close> in the map and assertions compiled in,
  \<open>gbsv\<close> aborts and neither phase runs, while \<open>gbtrf\<close> followed by \<open>gbtrs\<close> on the same
  values returns.
\<close>

theorem gbsv_negative_lookahead_counterexample:
  "gbsv_target recording_gbtrf recording_gbtrs letter_code False 8 HostTask [Lookahead \<mapsto> - 1]
       (0, [], [])
     = Inl AssertionFailed
   \<and> recording_gbtrs [Lookahead \<mapsto> - 1, Target \<mapsto> 84]
       (fst (recording_gbtrf [InnerBlocking \<mapsto> 16, Lookahead \<mapsto> - 1, MaxPanelThreads \<mapsto> 4,
                              Target \<mapsto> 84] (0, [])),
        snd (recording_gbtrf [InnerBlocking \<mapsto> 16, Lookahead \<mapsto> - 1, MaxPanelThreads \<mapsto> 4,
                              Target \<mapsto> 84] (0, [])),
        [])
     = (1, [Some (- 1), Some 84, Some 16, Some 4],
        [Some (- 1), Some 84, Some (- 1), Some 84, Some 16, Some 4])"
  by (simp add: gbsv_target_def gbsv_options_def opt_at_def recording_gbtrf_def
        recording_gbtrs_def)

text \<open>The dispatching \<open>gbsv\<close> is the instantiation for the selected target.\<close>

lemma gbsv_dispatch:
  assumes "select_target target_code to_underlying opts = Some target"
  shows "gbsv gbtrf gbtrs target_code to_underlying ndebug omp_max opts s =
         gbsv_target gbtrf gbtrs target_code ndebug omp_max target opts s"
  using assms by (simp add: gbsv_def)

section \<open>The order of calls in getrf_ca\<close>

lemma bcast_of_simps [simp]:
  "bcast_of [] = {}"
  "bcast_of (xs @ ys) = bcast_of xs \<union> bcast_of ys"
  "bcast_of (MPI_Bcast k r # xs) = (if r = (k, k) then insert k (bcast_of xs) else bcast_of xs)"
  by (auto simp: bcast_of_def)

lemma bcast_of_Cons_other: "(\<And>k r. c \<noteq> MPI_Bcast k r) \<Longrightarrow> bcast_of (c # xs) = bcast_of xs"
  by (auto simp: bcast_of_def)

lemma swaps_follow_bcast_append:
  "swaps_follow_bcast S (xs @ ys) =
     (swaps_follow_bcast S xs \<and> swaps_follow_bcast (S \<union> bcast_of xs) ys)"
proof (induction S xs rule: swaps_follow_bcast.induct)
  case (1 S) show ?case by simp
next
  case (2 S k r ops) then show ?case by simp
next
  case (3 S target k j1 j2 layout priority tag queue ops)
  then show ?case by (simp add: bcast_of_Cons_other)
qed (simp_all add: bcast_of_Cons_other)

lemma swaps_follow_bcast_mono:
  "swaps_follow_bcast S xs \<Longrightarrow> S \<subseteq> T \<Longrightarrow> swaps_follow_bcast T xs"
proof (induction S xs arbitrary: T rule: swaps_follow_bcast.induct)
  case (2 S k r ops)
  have "(if r = (k, k) then insert k S else S) \<subseteq> (if r = (k, k) then insert k T else T)"
    using "2.prems"(2) by auto
  with "2.IH" "2.prems"(1) show ?case by simp
next
  case (3 S target k j1 j2 layout priority tag queue ops)
  then show ?case by auto
qed simp_all

lemma swaps_follow_bcast_split:
  assumes "swaps_follow_bcast S ops"
    and "ops = xs @ PermuteRows target k j1 j2 layout priority tag queue # ys"
  shows "k \<in> S \<union> bcast_of xs"
  using assms by (simp add: swaps_follow_bcast_append)

lemma swaps_follow_bcast_concat:
  assumes "\<And>x T. x \<in> set xs \<Longrightarrow> S \<subseteq> T \<Longrightarrow> swaps_follow_bcast T (f x)"
  shows "swaps_follow_bcast S (concat (map f xs))"
  using assms
proof (induction xs arbitrary: S)
  case Nil show ?case by simp
next
  case (Cons x xs)
  have "swaps_follow_bcast S (f x)"
    using Cons.prems by simp
  moreover have "swaps_follow_bcast (S \<union> bcast_of (f x)) (concat (map f xs))"
    by (rule Cons.IH) (use Cons.prems in auto)
  ultimately show ?case by (simp add: swaps_follow_bcast_append)
qed

lemma lookahead_swaps: "k \<in> T \<Longrightarrow> swaps_follow_bcast T (lookahead_ops target A_mt k j)"
  by (simp add: lookahead_ops_def)

lemma step_swaps: "swaps_follow_bcast T (step_ops target A_mt A_nt tileMb tileNb ib' mpt la k)"
proof -
  have a: "swaps_follow_bcast (insert k T) (concat (map (lookahead_ops target A_mt k) js))" for js
    by (rule swaps_follow_bcast_concat) (auto intro: lookahead_swaps)
  show ?thesis
    by (simp add: step_ops_def panel_ops_def solve_ops_def trailing_ops_def release_ops_def
        swaps_follow_bcast_append bcast_of_Cons_other Let_def a)
qed

lemma bcast_of_step:
  "k \<in> bcast_of (step_ops target A_mt A_nt tileMb tileNb ib' mpt la k)"
  by (simp add: step_ops_def panel_ops_def bcast_of_def Let_def)

lemma bcast_of_steps:
  "k \<in> set ks \<Longrightarrow> k \<in> bcast_of (concat (map (step_ops target A_mt A_nt tileMb tileNb ib' mpt la) ks))"
  using bcast_of_step by (fastforce simp: bcast_of_def)

lemma left_swaps:
  "{0 .. m - 1} \<subseteq> T \<Longrightarrow> swaps_follow_bcast T (concat (map left_ops [0 .. m - 1]))"
proof (rule swaps_follow_bcast_concat)
  fix x Ta
  assume a: "{0 .. m - 1} \<subseteq> T" "x \<in> set [0 .. m - 1]" "T \<subseteq> Ta"
  then have "x \<in> Ta" by auto
  then show "swaps_follow_bcast Ta (left_ops x)" by (simp add: left_ops_def)
qed

lemma getrf_ca_swaps:
  "swaps_follow_bcast {} (getrf_ca_ops target A_mt A_nt tileMb tileNb ib' mpt la)"
proof -
  let ?m = "min A_mt A_nt"
  let ?steps = "concat (map (step_ops target A_mt A_nt tileMb tileNb ib' mpt la) [0 .. ?m - 1])"
  have s: "swaps_follow_bcast T ?steps" for T
    by (rule swaps_follow_bcast_concat) (rule step_swaps)
  have b: "{0 .. ?m - 1} \<subseteq> bcast_of ?steps"
    using bcast_of_steps [of _ "[0 .. ?m - 1]"] by auto
  have l: "swaps_follow_bcast (bcast_of (setup_ops target ?m) \<union> bcast_of ?steps)
             (concat (map left_ops [0 .. ?m - 1]))"
    by (rule left_swaps) (use b in auto)
  have su: "swaps_follow_bcast {} (setup_ops target ?m)"
    by (simp add: setup_ops_def)
  show ?thesis
    unfolding getrf_ca_ops_def Let_def
    by (simp add: swaps_follow_bcast_append s su l bcast_of_Cons_other
          swaps_follow_bcast_mono [OF l])
qed

text \<open>
  C4, as the code has it: for every panel \<open>k\<close> the pivots of panel \<open>k\<close> are broadcast
  as raw bytes by one blocking \<open>MPI_Bcast\<close> rooted at the rank that owns tile \<open>(k, k)\<close>,
  a collective that takes no tag, and every \<open>permuteRows\<close> that uses the pivots of
  panel \<open>k\<close> is called after that broadcast has returned.
\<close>

theorem pivots_bcast_precedes_row_swaps:
  "(0 \<le> k \<and> k < min A_mt A_nt \<longrightarrow>
      MPI_Bcast k (k, k) \<in> set (getrf_ca_ops target A_mt A_nt tileMb tileNb ib' mpt la))
   \<and> (\<forall>xs ys t j1 j2 l p tg q.
        getrf_ca_ops target A_mt A_nt tileMb tileNb ib' mpt la
          = xs @ PermuteRows t k j1 j2 l p tg q # ys
        \<longrightarrow> MPI_Bcast k (k, k) \<in> set xs)"
proof (intro conjI impI allI)
  assume "0 \<le> k \<and> k < min A_mt A_nt"
  then have "k \<in> set [0 .. min A_mt A_nt - 1]" by simp
  from bcast_of_steps [OF this]
  show "MPI_Bcast k (k, k) \<in> set (getrf_ca_ops target A_mt A_nt tileMb tileNb ib' mpt la)"
    by (simp add: getrf_ca_ops_def bcast_of_def Let_def)
next
  fix xs ys t j1 j2 l p tg q
  assume "getrf_ca_ops target A_mt A_nt tileMb tileNb ib' mpt la
          = xs @ PermuteRows t k j1 j2 l p tg q # ys"
  from swaps_follow_bcast_split [OF getrf_ca_swaps this]
  show "MPI_Bcast k (k, k) \<in> set xs" by (simp add: bcast_of_def)
qed

theorem pivots_bcast_precedes_row_swaps_witness:
  "(0::int) \<le> 0 \<and> (0::int) < min 1 1
   \<and> getrf_ca_ops HostTask 1 1 block_size_1 block_size_1 16 1 0
       = [PivotsResize 1, EmptyLike, PivotResize 0 1, InsertLocalTiles 0,
          PanelFactor 0 1 16 1 1, MPI_Bcast 0 (0, 0)]
         @ PermuteRows HostTask 0 0 0 ColMajor (Some 1) (Some 1) (Some 0)
         # [CopyDiag 0, ListBcast HostTask 0 [(1, 0, 0, 0), (0, 0, 1, 0)] ColMajor 0 1 True,
            ClearPanel 0, TrsmRight HostTask 0 1 0,
            ListBcastMT HostTask [] ColMajor (Some 1) (Some False),
            TileUpdateAllOrigin, ClearWorkspace]
   \<and> MPI_Bcast 0 (0, 0) \<in> set (getrf_ca_ops HostTask 1 1 block_size_1 block_size_1 16 1 0)
   \<and> MPI_Bcast 0 (0, 0) \<in> set [PivotsResize 1, EmptyLike, PivotResize 0 1, InsertLocalTiles 0,
          PanelFactor 0 1 16 1 1, MPI_Bcast 0 (0, 0)]"
proof -
  have e: "getrf_ca_ops HostTask 1 1 block_size_1 block_size_1 16 1 0
       = [PivotsResize 1, EmptyLike, PivotResize 0 1, InsertLocalTiles 0,
          PanelFactor 0 1 16 1 1, MPI_Bcast 0 (0, 0)]
         @ PermuteRows HostTask 0 0 0 ColMajor (Some 1) (Some 1) (Some 0)
         # [CopyDiag 0, ListBcast HostTask 0 [(1, 0, 0, 0), (0, 0, 1, 0)] ColMajor 0 1 True,
            ClearPanel 0, TrsmRight HostTask 0 1 0,
            ListBcastMT HostTask [] ColMajor (Some 1) (Some False),
            TileUpdateAllOrigin, ClearWorkspace]"
    by (simp add: getrf_ca_ops_def setup_ops_def step_ops_def panel_ops_def solve_ops_def
          panel_bcast_list_def trailing_ops_def release_ops_def left_ops_def host_layout_def
          priority_one_def life_factor_one_def is_shared_def block_size_1_def)
  from pivots_bcast_precedes_row_swaps [of 0 1 1 HostTask block_size_1 block_size_1 16 1 0] e
  show ?thesis by simp
qed

text \<open>
  C4 as stated fails on the tag: the pivot broadcast of panel 1 is given no tag, and
  the row swap that follows it is tagged 2.
\<close>

theorem pivots_bcast_tag_counterexample:
  "MPI_Bcast 1 (1, 1) \<in> set (getrf_ca_ops HostTask 2 2 block_size_1 block_size_1 16 1 1)
   \<and> op_tags (MPI_Bcast 1 (1, 1)) = []
   \<and> PermuteRows HostTask 1 1 1 ColMajor (Some 1) (Some 2) (Some 0)
       \<in> set (getrf_ca_ops HostTask 2 2 block_size_1 block_size_1 16 1 1)"
  by (simp add: getrf_ca_ops_def setup_ops_def step_ops_def panel_ops_def solve_ops_def
        panel_bcast_list_def trailing_ops_def release_ops_def left_ops_def host_layout_def
        priority_one_def life_factor_one_def is_shared_def lookahead_ops_def block_size_1_def)

lemma in_steps:
  "c \<in> set (getrf_ca_ops target A_mt A_nt tileMb tileNb ib' mpt la) \<longleftrightarrow>
     c \<in> set (setup_ops target (min A_mt A_nt)) \<or> c = TileUpdateAllOrigin \<or> c = ClearWorkspace
     \<or> (\<exists>k. 0 \<le> k \<and> k < min A_mt A_nt \<and>
           (c \<in> set (step_ops target A_mt A_nt tileMb tileNb ib' mpt la k) \<or> c \<in> set (left_ops k)))"
  by (auto simp: getrf_ca_ops_def Let_def)

text \<open>
  C9: the \<open>listBcastMT\<close> of the panel tiles of every panel is called with
  \<open>is_shared = (lookahead > 0)\<close>, and no \<open>listBcastMT\<close> of the driver is given any other
  value for \<open>is_shared\<close>.
\<close>

theorem panel_listBcastMT_shared_iff_lookahead:
  "(0 \<le> k \<and> k < min A_mt A_nt \<longrightarrow>
      ListBcastMT target (panel_bcast_list A_mt A_nt k) ColMajor (Some life_factor_one) (Some (0 < la))
        \<in> set (getrf_ca_ops target A_mt A_nt tileMb tileNb ib' mpt la))
   \<and> (\<forall>t es l lf b.
        ListBcastMT t es l lf (Some b) \<in> set (getrf_ca_ops target A_mt A_nt tileMb tileNb ib' mpt la)
        \<longrightarrow> b = (0 < la))"
proof (intro conjI impI allI)
  assume k: "0 \<le> k \<and> k < min A_mt A_nt"
  have "ListBcastMT target (panel_bcast_list A_mt A_nt k) ColMajor (Some life_factor_one) (Some (0 < la))
          \<in> set (step_ops target A_mt A_nt tileMb tileNb ib' mpt la k)"
    by (simp add: step_ops_def solve_ops_def is_shared_def)
  with k show "ListBcastMT target (panel_bcast_list A_mt A_nt k) ColMajor (Some life_factor_one)
      (Some (0 < la)) \<in> set (getrf_ca_ops target A_mt A_nt tileMb tileNb ib' mpt la)"
    unfolding in_steps by blast
next
  fix t es l lf b
  assume "ListBcastMT t es l lf (Some b) \<in> set (getrf_ca_ops target A_mt A_nt tileMb tileNb ib' mpt la)"
  then show "b = (0 < la)"
    unfolding in_steps
    by (auto simp: setup_ops_def step_ops_def panel_ops_def solve_ops_def lookahead_ops_def
          trailing_ops_def release_ops_def left_ops_def is_shared_def Let_def split: if_splits)
qed

theorem panel_listBcastMT_shared_iff_lookahead_witness:
  "(0::int) \<le> 1 \<and> (1::int) < min 3 3
   \<and> ListBcastMT HostTask [(2, 1, (2, 2, 2, 2), 2)] ColMajor (Some 1) (Some False)
       \<in> set (getrf_ca_ops HostTask 3 3 block_size_1 block_size_1 16 1 0)"
  using panel_listBcastMT_shared_iff_lookahead [of 1 3 3 HostTask 0 block_size_1 block_size_1 16 1]
  by (simp add: panel_bcast_list_def life_factor_one_def)

text \<open>
  C5: in step \<open>k\<close> the tags of the broadcast list of the panel tiles \<open>A(i, k)\<close> and the
  tags of the broadcast list of the trailing-row tiles \<open>A(k, j)\<close> are disjoint: the
  former are tile rows below \<open>A_mt\<close>, the latter are \<open>j + A_mt\<close>.
\<close>

theorem panel_and_trailing_tags_disjoint:
  assumes "0 \<le> k" and "0 \<le> la"
  shows "ListBcastMT target (panel_bcast_list A_mt A_nt k) ColMajor
           (Some life_factor_one) (Some (is_shared la))
           \<in> set (step_ops target A_mt A_nt tileMb tileNb ib' mpt la k)
       \<and> (k + 1 + la < A_nt \<longrightarrow>
            ListBcastMT target (trailing_bcast_list A_mt A_nt la k) ColMajor None None
              \<in> set (step_ops target A_mt A_nt tileMb tileNb ib' mpt la k))
       \<and> bcast_tags (panel_bcast_list A_mt A_nt k)
           \<inter> bcast_tags (trailing_bcast_list A_mt A_nt la k) = {}"
proof -
  have "bcast_tags (panel_bcast_list A_mt A_nt k) \<subseteq> {k + 1 .. A_mt - 1}"
    by (auto simp: bcast_tags_def panel_bcast_list_def)
  moreover have "bcast_tags (trailing_bcast_list A_mt A_nt la k) \<subseteq> {A_mt ..}"
    using assms by (auto simp: bcast_tags_def trailing_bcast_list_def)
  ultimately have "bcast_tags (panel_bcast_list A_mt A_nt k)
           \<inter> bcast_tags (trailing_bcast_list A_mt A_nt la k) = {}"
    by fastforce
  then show ?thesis
    by (simp add: step_ops_def solve_ops_def trailing_ops_def)
qed

theorem panel_and_trailing_tags_disjoint_witness:
  "(0::int) \<le> 0 \<and> (0::int) \<le> 1
   \<and> bcast_tags (panel_bcast_list 3 4 0) = {1, 2}
   \<and> bcast_tags (trailing_bcast_list 3 4 1 0) = {5, 6}
   \<and> bcast_tags (panel_bcast_list 3 4 0) \<inter> bcast_tags (trailing_bcast_list 3 4 1 0) = {}"
proof -
  have a: "bcast_tags (panel_bcast_list 3 4 0) = {1, 2}"
    by (simp add: bcast_tags_def panel_bcast_list_def upto.simps del: set_upto)
  have b: "bcast_tags (trailing_bcast_list 3 4 1 0) = {5, 6}"
    by (simp add: bcast_tags_def trailing_bcast_list_def upto.simps del: set_upto)
  from panel_and_trailing_tags_disjoint [of 0 1 HostTask 3 4 block_size_1 block_size_1 16 1] a b
  show ?thesis by simp
qed

text \<open>
  The single-tile broadcast of a lookahead column is outside both lists; its tag is
  the column \<open>j\<close>, which is also the tag of panel tile \<open>A(j, k)\<close>.
\<close>

lemma lookahead_tileBcast_tag_collides:
  "TileBcast 0 1 (1, 2, 1, 1) ColMajor 1 \<in> set (step_ops HostTask 3 4 block_size_1 block_size_1 16 1 1 0)
   \<and> 1 \<in> bcast_tags (panel_bcast_list 3 4 0)"
  by (simp add: step_ops_def lookahead_ops_def bcast_tags_def panel_bcast_list_def)

section \<open>Running call sequences\<close>

lemma run_Nil [simp]: "run K A_mt [] s = s"
  by (simp add: run_def)

lemma run_Cons [simp]: "run K A_mt (c # ops) s = run K A_mt ops (exec K A_mt c s)"
  by (simp add: run_def)

lemma run_append [simp]: "run K A_mt (xs @ ys) s = run K A_mt ys (run K A_mt xs s)"
  by (simp add: run_def)

lemma run_concat_snoc:
  "0 \<le> k \<Longrightarrow> run K A_mt (concat (map f [0 .. k])) s
      = run K A_mt (f k) (run K A_mt (concat (map f [0 .. k - 1])) s)"
  by (simp add: upto_rec2)

lemma step_ops_split:
  "step_ops target A_mt A_nt tileMb tileNb ib' mpt la k =
     panel_ops target A_mt A_nt tileMb tileNb ib' mpt k @ update_ops target A_mt A_nt la k"
  by (simp add: step_ops_def update_ops_def)

lemma update_ops_no_workspace:
  "list_all (\<lambda>c. \<not> workspace_op c) (update_ops target A_mt A_nt la k)"
  by (auto simp: update_ops_def solve_ops_def lookahead_ops_def trailing_ops_def release_ops_def
        list_all_iff)

lemma update_ops_no_pivot:
  "list_all (\<lambda>c. \<not> pivot_op c) (update_ops target A_mt A_nt la k)"
  by (auto simp: update_ops_def solve_ops_def lookahead_ops_def trailing_ops_def release_ops_def
        list_all_iff)

lemma length_panel_ops [simp]: "length (panel_ops target A_mt A_nt tileMb tileNb ib' mpt k) = 8"
  by (simp add: panel_ops_def Let_def)

section \<open>The panel workspace\<close>

lemma exec_keeps_Awork: "\<not> workspace_op c \<Longrightarrow> Awork (exec K A_mt c s) = Awork s"
  by (cases c) (simp_all split: option.splits)

lemma run_keeps_Awork: "list_all (\<lambda>c. \<not> workspace_op c) ops \<Longrightarrow> Awork (run K A_mt ops s) = Awork s"
  by (induction ops arbitrary: s) (simp_all add: exec_keeps_Awork)

lemma allocated_exec [simp]:
  "allocated (exec K A_mt EmptyLike s) = {}"
  "allocated (exec K A_mt (InsertLocalTiles k) s) = allocated s \<union> panel_tiles A_mt k"
  "allocated (exec K A_mt (PanelFactor k diag_len ib' mpt priority) s) = allocated s"
  "allocated (exec K A_mt (ClearPanel k) s) = allocated s - panel_tiles A_mt k"
  by (auto simp: allocated_def panel_tiles_def panel_factor_def split: prod.splits if_splits)

lemma allocated_keeps: "\<not> workspace_op c \<Longrightarrow> allocated (exec K A_mt c s) = allocated s"
  by (simp add: allocated_def exec_keeps_Awork)

lemma allocated_run_keeps:
  "list_all (\<lambda>c. \<not> workspace_op c) ops \<Longrightarrow> allocated (run K A_mt ops s) = allocated s"
  by (simp add: allocated_def run_keeps_Awork)

lemma allocated_step_prefix:
  assumes "allocated s = {}"
  shows "allocated (run K A_mt (take n (step_ops target A_mt A_nt tileMb tileNb ib' mpt la k)) s)
           = (if 2 \<le> n \<and> n < 8 then panel_tiles A_mt k else {})"
proof (cases "n < 8")
  case True
  then consider "n = 0" | "n = 1" | "n = 2" | "n = 3" | "n = 4" | "n = 5" | "n = 6" | "n = 7"
    by linarith
  then show ?thesis
    by cases (simp_all add: step_ops_split panel_ops_def Let_def assms allocated_keeps
        del: exec.simps)
next
  case False
  then have n: "8 \<le> n" by simp
  have "list_all (\<lambda>c. \<not> workspace_op c) (take (n - 8) (update_ops target A_mt A_nt la k))"
    using update_ops_no_workspace [of target A_mt A_nt la k]
    by (auto simp: list_all_iff dest: in_set_takeD)
  then have "allocated (run K A_mt (take n (step_ops target A_mt A_nt tileMb tileNb ib' mpt la k)) s)
      = allocated (run K A_mt (panel_ops target A_mt A_nt tileMb tileNb ib' mpt k) s)"
    using n by (simp add: step_ops_split allocated_run_keeps)
  also have "\<dots> = {}"
    by (simp add: panel_ops_def Let_def assms allocated_keeps del: exec.simps)
  finally show ?thesis using n by simp
qed

lemma allocated_step:
  "allocated s = {} \<Longrightarrow>
   allocated (run K A_mt (step_ops target A_mt A_nt tileMb tileNb ib' mpt la k) s) = {}"
  using allocated_step_prefix
    [of s K A_mt "length (step_ops target A_mt A_nt tileMb tileNb ib' mpt la k)"
        target A_nt tileMb tileNb ib' mpt la k]
  by (simp add: step_ops_split)

lemma allocated_setup: "allocated (run K A_mt (setup_ops target m) s) = {}"
  by (simp add: setup_ops_def allocated_keeps del: exec.simps)

lemma allocated_steps:
  "- 1 \<le> k \<Longrightarrow>
   allocated (run K A_mt (setup_ops target m
       @ concat (map (step_ops target A_mt A_nt tileMb tileNb ib' mpt la) [0 .. k])) s) = {}"
proof (induction k rule: int_ge_induct)
  case base
  show ?case using allocated_setup [of K A_mt target m s] by simp
next
  case (step i)
  have "0 \<le> i + 1" using step.hyps by simp
  from step.IH show ?case
    by (simp add: run_concat_snoc [OF \<open>0 \<le> i + 1\<close>] allocated_step)
qed

text \<open>
  C8: in iteration \<open>k\<close> the panel task is, in this order, the resize of the pivot
  vector, the insertion of the workspace tiles of panel \<open>k\<close>, the panel kernel, the
  pivot broadcast, the row swap of the panel, the copy of the factored diagonal tile
  back into \<open>A\<close>, its broadcast, and \<open>Apanel.clear()\<close>. Entering iteration \<open>k\<close> no
  workspace tile exists; after the first \<open>n\<close> calls of the iteration the tiles that
  exist are exactly those of panel \<open>k\<close> when the insertion has run and the clear has
  not (\<open>2 \<le> n < 8\<close>), and none otherwise, up to the end of the iteration.
\<close>

theorem panel_workspace_lives_within_its_iteration:
  assumes "0 \<le> k" and "k < min A_mt A_nt"
  shows "take 8 (step_ops target A_mt A_nt tileMb tileNb ib' mpt la k) =
           [PivotResize k (min (tileMb k) (tileNb k)),
            InsertLocalTiles k,
            PanelFactor k (min (tileMb k) (tileNb k)) ib' mpt priority_one,
            MPI_Bcast k (k, k),
            PermuteRows HostTask k k k host_layout (Some priority_one) (Some (k + 1)) (Some 0),
            CopyDiag k,
            ListBcast target k [(k + 1, A_mt - 1, k, k), (k, k, k + 1, A_nt - 1)]
              host_layout k life_factor_one True,
            ClearPanel k]
       \<and> (\<forall>n. allocated
                 (run K A_mt (take n (step_ops target A_mt A_nt tileMb tileNb ib' mpt la k))
                    (run K A_mt
                       (setup_ops target (min A_mt A_nt)
                        @ concat (map (step_ops target A_mt A_nt tileMb tileNb ib' mpt la) [0 .. k - 1]))
                       s))
               = (if 2 \<le> n \<and> n < 8 then panel_tiles A_mt k else {}))"
proof -
  have "- 1 \<le> k - 1" using assms(1) by simp
  from allocated_steps [OF this]
  have "allocated (run K A_mt
                       (setup_ops target (min A_mt A_nt)
                        @ concat (map (step_ops target A_mt A_nt tileMb tileNb ib' mpt la) [0 .. k - 1]))
                       s) = {}" .
  from allocated_step_prefix [OF this] show ?thesis
    by (simp add: step_ops_split panel_ops_def Let_def)
qed

theorem panel_workspace_lives_within_its_iteration_witness:
  "(0::int) \<le> 1 \<and> (1::int) < min 3 3
   \<and> allocated
        (run scalar_kernels 3 (take 5 (step_ops HostTask 3 3 block_size_1 block_size_1 16 1 1 1))
           (run scalar_kernels 3
              (setup_ops HostTask (min 3 3)
               @ concat (map (step_ops HostTask 3 3 block_size_1 block_size_1 16 1 1) [0 .. 1 - 1]))
              identity_state))
       = panel_tiles 3 1
   \<and> allocated
        (run scalar_kernels 3 (take 8 (step_ops HostTask 3 3 block_size_1 block_size_1 16 1 1 1))
           (run scalar_kernels 3
              (setup_ops HostTask (min 3 3)
               @ concat (map (step_ops HostTask 3 3 block_size_1 block_size_1 16 1 1) [0 .. 1 - 1]))
              identity_state))
       = {}"
proof -
  have h: "(0::int) \<le> 1" "(1::int) < min 3 3" by simp_all
  from panel_workspace_lives_within_its_iteration
         [OF h, of HostTask block_size_1 block_size_1 16 1 1 scalar_kernels identity_state]
  have a: "\<forall>n. allocated
        (run scalar_kernels 3 (take n (step_ops HostTask 3 3 block_size_1 block_size_1 16 1 1 1))
           (run scalar_kernels 3
              (setup_ops HostTask (min 3 3)
               @ concat (map (step_ops HostTask 3 3 block_size_1 block_size_1 16 1 1) [0 .. 1 - 1]))
              identity_state))
       = (if 2 \<le> n \<and> n < 8 then panel_tiles 3 1 else {})"
    by blast
  from a [rule_format, of 5] a [rule_format, of 8] h show ?thesis by simp
qed

section \<open>The pivot table\<close>

lemma length_resize [simp]: "length (resize n d xs) = n"
  by (simp add: resize_def)

lemma exec_keeps_pivots: "\<not> pivot_op c \<Longrightarrow> pivots (exec K A_mt c s) = pivots s"
  by (cases c) (simp_all split: option.splits)

lemma run_keeps_pivots:
  "list_all (\<lambda>c. \<not> pivot_op c) ops \<Longrightarrow> pivots (run K A_mt ops s) = pivots s"
  by (induction ops arbitrary: s) (simp_all add: exec_keeps_pivots del: exec.simps)

lemma sizes_PivotsResize: "sizes (exec K A_mt (PivotsResize n) s) = resize (nat n) 0 (sizes s)"
  by (simp add: sizes_def resize_def take_map)

lemma sizes_PivotResize:
  "sizes (exec K A_mt (PivotResize k n) s) = (sizes s)[nat k := nat n]"
  by (simp add: sizes_def map_update)

lemma map_length_update_same:
  assumes "length y = length (xs ! i)"
  shows "map length (xs[i := y]) = map length xs"
proof (cases "i < length xs")
  case True
  with assms show ?thesis
    by (simp add: list_eq_iff_nth_eq nth_list_update)
next
  case False
  then have "length xs \<le> i" by linarith
  then have "xs[i := y] = xs" by (rule list_update_beyond)
  then show ?thesis by (rule arg_cong)
qed

lemma sizes_PanelFactor:
  assumes "keeps_size K"
  shows "sizes (exec K A_mt (PanelFactor k diag_len ib' mpt priority) s) = sizes s"
proof -
  obtain Acol Wcol pivot where
    p: "getrf_ca_panel K (get_col (matA s) k (A_mt - 1) k) diag_len ib' mpt (pivots s ! nat k)
          = (Acol, Wcol, pivot)"
    by (cases "getrf_ca_panel K (get_col (matA s) k (A_mt - 1) k) diag_len ib' mpt (pivots s ! nat k)")
  have "length pivot = length (pivots s ! nat k)"
    using assms p unfolding keeps_size_def
    by (metis snd_conv)
  then have "map length ((pivots s)[nat k := pivot]) = map length (pivots s)"
    by (rule map_length_update_same)
  then show ?thesis
    by (simp add: sizes_def panel_factor_def p)
qed

lemma sizes_keeps: "\<not> pivot_op c \<Longrightarrow> sizes (exec K A_mt c s) = sizes s"
  by (simp add: sizes_def exec_keeps_pivots)

lemma sizes_run_keeps: "list_all (\<lambda>c. \<not> pivot_op c) ops \<Longrightarrow> sizes (run K A_mt ops s) = sizes s"
  by (simp add: sizes_def run_keeps_pivots)

lemma sizes_step:
  assumes "keeps_size K"
  shows "sizes (run K A_mt (step_ops target A_mt A_nt tileMb tileNb ib' mpt la k) s)
           = (sizes s)[nat k := nat (min (tileMb k) (tileNb k))]"
  by (simp add: step_ops_split panel_ops_def Let_def sizes_run_keeps update_ops_no_pivot
        sizes_keeps sizes_PanelFactor [OF assms] sizes_PivotResize del: exec.simps)

lemma sizes_setup: "sizes (run K A_mt (setup_ops target m) s) = resize (nat m) 0 (sizes s)"
  by (simp add: setup_ops_def sizes_keeps sizes_PivotsResize del: exec.simps)

lemma sizes_steps:
  assumes "keeps_size K" and "length (sizes s) = n"
  shows "- 1 \<le> k \<Longrightarrow>
     length (sizes (run K A_mt
        (concat (map (step_ops target A_mt A_nt tileMb tileNb ib' mpt la) [0 .. k])) s)) = n
     \<and> (\<forall>k'. 0 \<le> k' \<and> k' \<le> k \<and> nat k' < n \<longrightarrow>
          sizes (run K A_mt
            (concat (map (step_ops target A_mt A_nt tileMb tileNb ib' mpt la) [0 .. k])) s) ! nat k'
          = nat (min (tileMb k') (tileNb k')))"
proof (induction k rule: int_ge_induct)
  case base
  show ?case by (simp add: assms(2))
next
  case (step i)
  have i: "0 \<le> i + 1" using step.hyps by simp
  let ?s = "run K A_mt
        (concat (map (step_ops target A_mt A_nt tileMb tileNb ib' mpt la) [0 .. i])) s"
  let ?t = "run K A_mt
        (concat (map (step_ops target A_mt A_nt tileMb tileNb ib' mpt la) [0 .. i + 1])) s"
  have e: "sizes ?t = (sizes ?s)[nat (i + 1) := nat (min (tileMb (i + 1)) (tileNb (i + 1)))]"
    by (simp add: run_concat_snoc [OF i] sizes_step [OF assms(1)])
  have l: "length (sizes ?s) = n" using step.IH by blast
  show ?case
  proof (intro conjI allI impI)
    show "length (sizes ?t) = n"
      using l by (simp add: e)
  next
    fix k' assume k': "0 \<le> k' \<and> k' \<le> i + 1 \<and> nat k' < n"
    show "sizes ?t ! nat k' = nat (min (tileMb k') (tileNb k'))"
    proof (cases "k' = i + 1")
      case True
      with k' l show ?thesis by (simp add: e)
    next
      case False
      with k' have "nat k' \<noteq> nat (i + 1)" "k' \<le> i" by auto
      moreover from this k' step.IH have "sizes ?s ! nat k' = nat (min (tileMb k') (tileNb k'))"
        by blast
      ultimately show ?thesis by (simp add: e)
    qed
  qed
qed

lemma left_ops_no_pivot: "list_all (\<lambda>c. \<not> pivot_op c) (concat (map left_ops ks))"
  by (auto simp: list_all_iff left_ops_def)

lemma sizes_getrf_ca:
  "sizes (getrf_ca_specialization K target A_mt A_nt tileMb tileNb s ib' mpt la)
     = sizes (run K A_mt
         (concat (map (step_ops target A_mt A_nt tileMb tileNb ib' mpt la) [0 .. min A_mt A_nt - 1]))
         (run K A_mt (setup_ops target (min A_mt A_nt)) s))"
  by (simp add: getrf_ca_specialization_def getrf_ca_ops_def Let_def sizes_run_keeps
        left_ops_no_pivot sizes_keeps del: exec.simps)

text \<open>
  C6: when the panel kernel leaves the size of the pivot vector it is given alone,
  \<open>getrf_ca\<close> leaves a pivot table of exactly \<open>min A_mt A_nt\<close> sequences, and the
  sequence of panel \<open>k\<close> has length \<open>min (tileMb k) (tileNb k)\<close>.
\<close>

theorem pivot_table_sizes:
  assumes "keeps_size K"
    and "0 \<le> A_mt" and "0 \<le> A_nt"
    and "\<forall>k. 0 \<le> tileMb k \<and> 0 \<le> tileNb k"
  shows "int (length (pivots (getrf_ca_specialization K target A_mt A_nt tileMb tileNb s ib' mpt la)))
           = min A_mt A_nt
       \<and> (\<forall>k. 0 \<le> k \<and> k < min A_mt A_nt \<longrightarrow>
            int (length (pivots (getrf_ca_specialization K target A_mt A_nt tileMb tileNb s ib' mpt la)
                          ! nat k))
              = min (tileMb k) (tileNb k))"
proof -
  let ?s = "getrf_ca_specialization K target A_mt A_nt tileMb tileNb s ib' mpt la"
  let ?m = "min A_mt A_nt"
  have m: "- 1 \<le> ?m - 1" using assms(2,3) by simp
  have l0: "length (sizes (run K A_mt (setup_ops target ?m) s)) = nat ?m"
    by (simp add: sizes_setup)
  have st: "length (sizes ?s) = nat ?m
     \<and> (\<forall>k'. 0 \<le> k' \<and> k' \<le> ?m - 1 \<and> nat k' < nat ?m \<longrightarrow>
          sizes ?s ! nat k' = nat (min (tileMb k') (tileNb k')))"
    unfolding sizes_getrf_ca by (rule sizes_steps [OF assms(1) l0 m])
  have len: "length (pivots ?s) = nat ?m"
    using st by (simp add: sizes_def)
  show ?thesis
  proof (intro conjI allI impI)
    show "int (length (pivots ?s)) = ?m"
      using len assms(2,3) by simp
  next
    fix k assume k: "0 \<le> k \<and> k < ?m"
    then have "nat k < nat ?m" by simp
    with k st have "sizes ?s ! nat k = nat (min (tileMb k) (tileNb k))"
      by simp
    moreover have "nat k < length (pivots ?s)"
      using k len by simp
    ultimately have "length (pivots ?s ! nat k) = nat (min (tileMb k) (tileNb k))"
      by (simp add: sizes_def)
    then show "int (length (pivots ?s ! nat k)) = min (tileMb k) (tileNb k)"
      using assms(4) by simp
  qed
qed

lemma scalar_kernels_keeps_size: "keeps_size scalar_kernels"
  by (simp add: keeps_size_def scalar_kernels_def scalar_panel_def Let_def split: list.splits)

theorem pivot_table_sizes_witness:
  "keeps_size scalar_kernels \<and> (0::int) \<le> 4 \<and> (0::int) \<le> 1
   \<and> int (length (pivots (getrf_ca_specialization scalar_kernels HostTask 4 4 block_size_1 block_size_1
                              identity_state 16 4 1))) = 4
   \<and> int (length (pivots (getrf_ca_specialization scalar_kernels HostTask 4 4 block_size_1 block_size_1
                              identity_state 16 4 1) ! nat 2)) = 1"
proof -
  have h: "(0::int) \<le> 4" "\<forall>k. 0 \<le> block_size_1 k \<and> 0 \<le> block_size_1 k"
    by (simp_all add: block_size_1_def)
  note t = pivot_table_sizes [OF scalar_kernels_keeps_size h(1) h(1) h(2),
         of HostTask identity_state 16 4 1]
  from t have a: "int (length (pivots (getrf_ca_specialization scalar_kernels HostTask 4 4
      block_size_1 block_size_1 identity_state 16 4 1))) = 4"
    by simp
  from t have "\<forall>k. 0 \<le> k \<and> k < min 4 4 \<longrightarrow>
      int (length (pivots (getrf_ca_specialization scalar_kernels HostTask 4 4
      block_size_1 block_size_1 identity_state 16 4 1) ! nat k))
        = min (block_size_1 k) (block_size_1 k)"
    by (rule conjunct2)
  from this [rule_format, of 2]
  have b: "int (length (pivots (getrf_ca_specialization scalar_kernels HostTask 4 4 block_size_1 block_size_1
                              identity_state 16 4 1) ! nat 2)) = 1"
    by (simp add: block_size_1_def)
  show ?thesis using a b scalar_kernels_keeps_size by simp
qed

text \<open>
  Every \<open>pivots.at(k)\<close> of a run is evaluated with \<open>k\<close> inside the table, whatever the
  kernels do: the table has \<open>min A_mt A_nt\<close> entries from the first \<open>resize\<close> on.
\<close>

lemma pivots_at_step:
  "c \<in> set (step_ops target A_mt A_nt tileMb tileNb ib' mpt la k) \<Longrightarrow> pivots_at c = Some k'
     \<Longrightarrow> k' = k"
  by (auto simp: step_ops_def panel_ops_def solve_ops_def lookahead_ops_def trailing_ops_def
        release_ops_def Let_def split: if_splits)

lemma pivots_at_in_grid:
  assumes "c \<in> set (getrf_ca_ops target A_mt A_nt tileMb tileNb ib' mpt la)"
    and "pivots_at c = Some k"
  shows "0 \<le> k \<and> k < min A_mt A_nt"
  using assms unfolding in_steps
  by (auto simp: setup_ops_def left_ops_def dest: pivots_at_step split: if_splits)

lemma length_pivots_exec:
  assumes "\<And>n. c \<noteq> PivotsResize n"
  shows "length (pivots (exec K A_mt c s)) = length (pivots s)"
proof (cases c)
  case (PivotsResize n)
  with assms show ?thesis by blast
qed (simp_all add: panel_factor_def split: prod.splits option.splits)

lemma length_pivots_run:
  "(\<And>n. PivotsResize n \<notin> set ops) \<Longrightarrow> length (pivots (run K A_mt ops s)) = length (pivots s)"
proof (induction ops arbitrary: s)
  case Nil
  show ?case by simp
next
  case (Cons c ops)
  have "length (pivots (exec K A_mt c s)) = length (pivots s)"
    by (rule length_pivots_exec) (use Cons.prems in auto)
  moreover have "length (pivots (run K A_mt ops (exec K A_mt c s))) = length (pivots (exec K A_mt c s))"
    by (rule Cons.IH) (use Cons.prems in auto)
  ultimately show ?case by (simp del: exec.simps)
qed

lemma length_pivots_setup:
  "length (pivots (run K A_mt (setup_ops target m) s)) = nat m"
  by (simp add: setup_ops_def)

lemma no_resize_after_setup:
  "PivotsResize n \<notin> set (concat (map (step_ops target A_mt A_nt tileMb tileNb ib' mpt la) ks)
      @ [TileUpdateAllOrigin] @ concat (map left_ops ks') @ [ClearWorkspace])"
  by (auto simp: step_ops_def panel_ops_def solve_ops_def lookahead_ops_def trailing_ops_def
        release_ops_def left_ops_def Let_def split: if_splits)

lemma pivots_at_in_range:
  assumes "getrf_ca_ops target A_mt A_nt tileMb tileNb ib' mpt la = xs @ c # ys"
    and "pivots_at c = Some k"
  shows "0 \<le> k \<and> nat k < length (pivots (run K A_mt xs s))"
proof -
  let ?m = "min A_mt A_nt"
  let ?rest = "concat (map (step_ops target A_mt A_nt tileMb tileNb ib' mpt la) [0 .. ?m - 1])
      @ [TileUpdateAllOrigin] @ concat (map left_ops [0 .. ?m - 1]) @ [ClearWorkspace]"
  have g: "0 \<le> k \<and> k < ?m"
    by (rule pivots_at_in_grid [of c target A_mt A_nt tileMb tileNb ib' mpt la])
       (simp_all add: assms)
  have e: "setup_ops target ?m @ ?rest = xs @ c # ys"
    using assms(1) by (simp add: getrf_ca_ops_def Let_def)
  have "\<exists>us. xs = setup_ops target ?m @ us \<and> ?rest = us @ c # ys"
  proof -
    from e obtain us where
      "(setup_ops target ?m = xs @ us \<and> us @ ?rest = c # ys)
        \<or> (setup_ops target ?m @ us = xs \<and> ?rest = us @ c # ys)"
      unfolding append_eq_append_conv2 by blast
    then show ?thesis
    proof
      assume a: "setup_ops target ?m = xs @ us \<and> us @ ?rest = c # ys"
      show ?thesis
      proof (cases us)
        case Nil
        with a show ?thesis by auto
      next
        case (Cons u us')
        with a have "c \<in> set (setup_ops target ?m)" by auto
        with assms(2) show ?thesis by (auto simp: setup_ops_def split: if_splits)
      qed
    next
      assume "setup_ops target ?m @ us = xs \<and> ?rest = us @ c # ys"
      then show ?thesis by auto
    qed
  qed
  then obtain us where us: "xs = setup_ops target ?m @ us" "?rest = us @ c # ys" by blast
  have "PivotsResize n \<notin> set us" for n
    using no_resize_after_setup [of n target A_mt A_nt tileMb tileNb ib' mpt la
        "[0 .. ?m - 1]" "[0 .. ?m - 1]"]
    unfolding us(2) by simp
  then have "length (pivots (run K A_mt xs s)) = nat ?m"
    unfolding us(1) run_append by (simp add: length_pivots_run length_pivots_setup)
  with g show ?thesis by simp
qed


section \<open>The lookahead width\<close>





lemma update_columns_empty [simp]: "update_columns K pivot A_mt k {} M = M"
  by (simp add: update_columns_def)





lemma run_release_ops [simp]: "run K A_mt (release_ops target la k) s = s"
  by (simp add: release_ops_def)




lemma run_concat_cong:
  assumes "\<And>x s. x \<in> set xs \<Longrightarrow> run K A_mt (f x) s = run K A_mt (g x) s"
  shows "run K A_mt (concat (map f xs)) s = run K A_mt (concat (map g xs)) s"
  using assms by (induction xs arbitrary: s) simp_all


text \<open>
  While \<open>k+1+lookahead\<close> stays in the range of \<open>int64_t\<close>, the calls of the machine
  arithmetic have the effect of the calls of the exact arithmetic.
\<close>

lemma run_trailing_ops_int64:
  assumes "- (2 ^ 63) \<le> k + 1 + la" and "k + 1 + la < 2 ^ 63"
  shows "run K A_mt (trailing_ops_int64 target A_mt A_nt la k) s
         = run K A_mt (trailing_ops target A_mt A_nt la k) s"
  using assms by (simp add: trailing_ops_int64_def trailing_ops_def int64_exact)

lemma run_step_ops_int64:
  assumes "- (2 ^ 63) \<le> k + 1 + la" and "k + 1 + la < 2 ^ 63"
  shows "run K A_mt (step_ops_int64 target A_mt A_nt tileMb tileNb ib' mpt la k) s
         = run K A_mt (step_ops target A_mt A_nt tileMb tileNb ib' mpt la k) s"
proof -
  have "int64 (k + 1 + la) - 1 = k + la"
    using assms by (simp add: int64_exact)
  then show ?thesis
    unfolding step_ops_int64_def step_ops_def run_append run_trailing_ops_int64 [OF assms]
    by simp
qed

lemma getrf_ca_specialization_int64_exact:
  assumes "- (2 ^ 63) \<le> la" and "min A_mt A_nt + la < 2 ^ 63"
  shows "getrf_ca_specialization_int64 K target A_mt A_nt tileMb tileNb s ib' mpt la
         = getrf_ca_specialization K target A_mt A_nt tileMb tileNb s ib' mpt la"
proof -
  have "run K A_mt (concat (map (step_ops_int64 target A_mt A_nt tileMb tileNb ib' mpt la)
                       [0 .. min A_mt A_nt - 1])) s'
      = run K A_mt (concat (map (step_ops target A_mt A_nt tileMb tileNb ib' mpt la)
                       [0 .. min A_mt A_nt - 1])) s'" for s'
  proof (rule run_concat_cong)
    fix k s''
    assume "k \<in> set [0 .. min A_mt A_nt - 1]"
    then have "0 \<le> k" and "k + 1 \<le> min A_mt A_nt"
      by simp_all
    then have "- (2 ^ 63) \<le> k + 1 + la" and "k + 1 + la < 2 ^ 63"
      using assms by linarith+
    then show "run K A_mt (step_ops_int64 target A_mt A_nt tileMb tileNb ib' mpt la k) s''
             = run K A_mt (step_ops target A_mt A_nt tileMb tileNb ib' mpt la k) s''"
      by (rule run_step_ops_int64)
  qed
  then show ?thesis
    unfolding getrf_ca_specialization_int64_def getrf_ca_ops_int64_def
      getrf_ca_specialization_def getrf_ca_ops_def Let_def run_append by simp
qed

text \<open>
  For a lookahead that is not negative and a tile-column count that fits an \<open>int\<close>, the
  calls themselves are the same, tags included.
\<close>

lemma trailing_ops_int64_exact:
  assumes "0 \<le> k" and "0 \<le> la" and "k + 1 + la < 2 ^ 63" and "A_nt \<le> 2 ^ 31"
  shows "trailing_ops_int64 target A_mt A_nt la k = trailing_ops target A_mt A_nt la k"
proof -
  have e: "int64 (k + 1 + la) = k + 1 + la"
    using assms by (simp add: int64_exact)
  show ?thesis
  proof (cases "k + 1 + la < A_nt")
    case True
    then have "to_int32 (k + 1 + la) = k + 1 + la"
      using assms by (simp add: to_int32_exact)
    then show ?thesis
      by (simp add: trailing_ops_int64_def trailing_ops_def trailing_bcast_list_int64_def
            trailing_bcast_list_def e)
  next
    case False
    then show ?thesis
      by (simp add: trailing_ops_int64_def trailing_ops_def e)
  qed
qed

lemma step_ops_int64_exact:
  assumes "0 \<le> k" and "0 \<le> la" and "k + 1 + la < 2 ^ 63" and "A_nt \<le> 2 ^ 31"
  shows "step_ops_int64 target A_mt A_nt tileMb tileNb ib' mpt la k
         = step_ops target A_mt A_nt tileMb tileNb ib' mpt la k"
proof -
  have "int64 (k + 1 + la) - 1 = k + la"
    using assms by (simp add: int64_exact)
  then show ?thesis
    unfolding step_ops_int64_def step_ops_def trailing_ops_int64_exact [OF assms]
    by simp
qed

lemma getrf_ca_ops_int64_exact:
  assumes "0 \<le> la" and "min A_mt A_nt + la < 2 ^ 63" and "A_nt \<le> 2 ^ 31"
  shows "getrf_ca_ops_int64 target A_mt A_nt tileMb tileNb ib' mpt la
         = getrf_ca_ops target A_mt A_nt tileMb tileNb ib' mpt la"
proof -
  have m: "map (step_ops_int64 target A_mt A_nt tileMb tileNb ib' mpt la) [0 .. min A_mt A_nt - 1]
      = map (step_ops target A_mt A_nt tileMb tileNb ib' mpt la) [0 .. min A_mt A_nt - 1]"
  proof (rule map_cong [OF refl])
    fix k
    assume "k \<in> set [0 .. min A_mt A_nt - 1]"
    then have k: "0 \<le> k" and "k + 1 \<le> min A_mt A_nt"
      by simp_all
    then have "k + 1 + la < 2 ^ 63"
      using assms by linarith
    with k show "step_ops_int64 target A_mt A_nt tileMb tileNb ib' mpt la k
             = step_ops target A_mt A_nt tileMb tileNb ib' mpt la k"
      using assms by (simp add: step_ops_int64_exact)
  qed
  show ?thesis
    unfolding getrf_ca_ops_int64_def getrf_ca_ops_def Let_def m ..
qed





text \<open>
  A negative lookahead is outside this: with lookahead \<open>-1\<close> the trailing update
  starts at the panel column itself.
\<close>

lemma negative_lookahead_updates_panel_column:
  "Gemm HostTask 0 0 1 ColMajor 0 1 \<in> set (step_ops HostTask 2 2 block_size_1 block_size_1 16 4 (- 1) 0)"
  by (simp add: step_ops_def trailing_ops_def target_layout_def priority_zero_def)

section \<open>The identity matrix and a zero pivot\<close>

lemma put_get_col: "put_col M i1 i2 j (get_col M i1 i2 j) = M"
proof (rule ext)
  fix c :: "int \<times> int"
  obtain i j' where c: "c = (i, j')" by (cases c)
  show "put_col M i1 i2 j (get_col M i1 i2 j) c = M c"
    by (simp add: c put_col_def get_col_def)
qed

lemma swap_rows_same [simp]: "swap_rows (r, r) xs = xs"
  by (simp add: swap_rows_def)

lemma apply_pivots_self [simp]: "apply_pivots [(0, 0)] xs = xs"
  by (simp add: apply_pivots_def)

lemma permute_block_self:
  "permute_block scalar_kernels [(0, 0)] i1 i2 j1 j2 M = M"
proof (rule ext)
  fix c :: "int \<times> int"
  obtain i j where c: "c = (i, j)" by (cases c)
  show "permute_block scalar_kernels [(0, 0)] i1 i2 j1 j2 M c = M c"
    by (simp add: c permute_block_def scalar_kernels_def put_get_col)
qed

lemma trsm_Left_block_scalar: "trsm_Left_block scalar_kernels k j1 j2 M = M"
  by (rule ext) (simp add: trsm_Left_block_def scalar_kernels_def split: prod.splits)

lemma gemm_block_identity: "gemm_block scalar_kernels A_mt k j1 j2 identity_tiles = identity_tiles"
  by (rule ext) (simp add: gemm_block_def scalar_kernels_def identity_tiles_def split: prod.splits)

lemma trsm_Right_block_identity: "trsm_Right_block scalar_kernels A_mt k identity_tiles = identity_tiles"
  by (rule ext) (simp add: trsm_Right_block_def scalar_kernels_def identity_tiles_def split: prod.splits)

lemma run_fixed: "(\<And>c. c \<in> set ops \<Longrightarrow> exec K A_mt c s = s) \<Longrightarrow> run K A_mt ops s = s"
  by (induction ops) (simp_all del: exec.simps)

lemma update_ops_identity:
  assumes "matA s = identity_tiles" and "pivots s ! nat k = [(0, 0)]"
  shows "run scalar_kernels A_mt (update_ops target A_mt A_nt la k) s = s"
proof (rule run_fixed)
  fix c assume "c \<in> set (update_ops target A_mt A_nt la k)"
  then show "exec scalar_kernels A_mt c s = s"
    using assms
    by (auto simp: update_ops_def solve_ops_def lookahead_ops_def trailing_ops_def release_ops_def
          permute_block_self trsm_Left_block_scalar gemm_block_identity trsm_Right_block_identity
          split: if_splits)
qed

lemma left_ops_identity:
  assumes "pivots s ! nat k = [(0, 0)]"
  shows "run scalar_kernels A_mt (left_ops k) s = s"
  using assms by (simp add: left_ops_def permute_block_self)

lemma identity_column:
  assumes "k \<le> A_mt - 1"
  shows "get_col identity_tiles k (A_mt - 1) k = 1 # map (\<lambda>i. 0) [k + 1 .. A_mt - 1]"
  using assms by (simp add: get_col_def upto_rec1 [of k] identity_tiles_def)

lemma first_max_identity_column: "first_max (1 # map (\<lambda>i. 0) js) = 0"
  by (simp add: list_all_iff)

lemma scalar_panel_identity:
  assumes "k \<le> A_mt - 1" and "length pivot = 1"
  shows "scalar_panel (get_col identity_tiles k (A_mt - 1) k) diag_len ib' mpt pivot
         = (get_col identity_tiles k (A_mt - 1) k, get_col identity_tiles k (A_mt - 1) k, [(0, 0)])"
proof -
  obtain p where p: "pivot = [p]" using assms(2) by (cases pivot) simp_all
  have "first_max (get_col identity_tiles k (A_mt - 1) k) = 0"
    unfolding identity_column [OF assms(1)] by (rule first_max_identity_column)
  then show ?thesis by (simp add: scalar_panel_def p)
qed

lemma panel_factor_identity:
  assumes "matA s = identity_tiles"
    and "Awork s = (\<lambda>(i, j). if j = k \<and> k \<le> i \<and> i \<le> A_mt - 1 then Some b else None)"
    and "k \<le> A_mt - 1" and "length (pivots s ! nat k) = 1"
  shows "panel_factor scalar_kernels A_mt k diag_len ib' mpt s
         = s\<lparr>Awork := (\<lambda>(i, j). if j = k \<and> k \<le> i \<and> i \<le> A_mt - 1
                                   then Some (identity_tiles (i, j)) else None),
              pivots := (pivots s)[nat k := [(0, 0)]]\<rparr>"
proof -
  let ?col = "get_col identity_tiles k (A_mt - 1) k"
  have p: "getrf_ca_panel scalar_kernels (get_col (matA s) k (A_mt - 1) k) diag_len ib' mpt
             (pivots s ! nat k) = (?col, ?col, [(0, 0)])"
    by (simp add: scalar_kernels_def assms(1) scalar_panel_identity [OF assms(3,4)])
  have len: "length ?col = nat (A_mt - k)" by (simp add: get_col_def)
  have nth: "k \<le> i \<Longrightarrow> i \<le> A_mt - 1 \<Longrightarrow> ?col ! nat (i - k) = identity_tiles (i, k)" for i
    by (simp add: get_col_def)
  have w: "(\<lambda>(i, j). if j = k \<and> k \<le> i \<and> i \<le> A_mt - 1 \<and> nat (i - k) < length ?col
                                  \<and> Awork s (i, j) \<noteq> None
                               then Some (?col ! nat (i - k)) else Awork s (i, j))
        = (\<lambda>(i, j). if j = k \<and> k \<le> i \<and> i \<le> A_mt - 1
                                     then Some (identity_tiles (i, j)) else None)"
    by (rule ext) (auto simp: len nth assms(2) split: prod.splits)
  have m: "put_col (matA s) k (A_mt - 1) k ?col = matA s"
    unfolding assms(1) by (rule put_get_col)
  show ?thesis
    unfolding panel_factor_def p prod.case w m by simp
qed

lemma panel_ops_identity:
  assumes "matA s = identity_tiles" and "Awork s = (\<lambda>_. None)"
    and "0 \<le> k" and "k \<le> A_mt - 1" and "nat k < length (pivots s)"
  shows "run scalar_kernels A_mt (panel_ops target A_mt A_nt block_size_1 block_size_1 ib' mpt k) s
         = s\<lparr>pivots := (pivots s)[nat k := [(0, 0)]]\<rparr>"
proof -
  let ?r = "resize (nat 1) (Pivot0 scalar_kernels) (pivots s ! nat k)"
  let ?panel = "\<lambda>t. (\<lambda>(i, j). if j = k \<and> k \<le> i \<and> i \<le> A_mt - 1 then Some (t (i, j)) else None)"
  let ?s2 = "s\<lparr>Awork := ?panel (\<lambda>_. blank_tile scalar_kernels), pivots := (pivots s)[nat k := ?r]\<rparr>"
  let ?s3 = "s\<lparr>Awork := ?panel identity_tiles, pivots := (pivots s)[nat k := [(0, 0)]]\<rparr>"
  let ?s4 = "s\<lparr>pivots := (pivots s)[nat k := [(0, 0)]]\<rparr>"
  have a: "exec scalar_kernels A_mt (InsertLocalTiles k)
             (exec scalar_kernels A_mt (PivotResize k 1) s) = ?s2"
    by (simp add: assms(2) cong: if_cong prod.case_cong)
  have b: "exec scalar_kernels A_mt (PanelFactor k 1 ib' mpt priority_one) ?s2 = ?s3"
    unfolding exec.simps
    by (subst panel_factor_identity [where b = "blank_tile scalar_kernels"])
       (use assms in simp_all)
  have c: "exec scalar_kernels A_mt
             (PermuteRows HostTask k k k host_layout (Some priority_one) (Some (k + 1)) (Some 0)) ?s3
           = ?s3"
    using assms(1,5) by (simp add: permute_block_self)
  have d: "exec scalar_kernels A_mt (CopyDiag k) ?s3 = ?s3"
    using assms(1,3,4) by (simp add: identity_tiles_def fun_upd_idem)
  have "(\<lambda>(i, j). if j = k \<and> k \<le> i \<and> i \<le> A_mt - 1 then None else Awork ?s3 (i, j))
           = Awork s"
    unfolding assms(2) by (rule ext) (simp split: prod.splits)
  then have e: "exec scalar_kernels A_mt (ClearPanel k) ?s3 = ?s4"
    unfolding exec.simps by simp
  show ?thesis
    unfolding panel_ops_def block_size_1_def Let_def min.idem run_Cons run_Nil a b
    unfolding exec.simps(14) c d exec.simps(15) e ..
qed

lemma step_ops_identity:
  assumes "matA s = identity_tiles" and "Awork s = (\<lambda>_. None)"
    and "0 \<le> k" and "k \<le> A_mt - 1" and "nat k < length (pivots s)"
  shows "run scalar_kernels A_mt (step_ops target A_mt A_nt block_size_1 block_size_1 ib' mpt la k) s
         = s\<lparr>pivots := (pivots s)[nat k := [(0, 0)]]\<rparr>"
  unfolding step_ops_split run_append panel_ops_identity [OF assms]
  by (rule update_ops_identity) (use assms in simp_all)

lemma upto_0_3: "[0 .. 3 :: int] = [0, 1, 2, 3]"
  by (simp add: upto_rec1)

lemma setup_ops_identity:
  "run scalar_kernels A_mt (setup_ops target 4) identity_state
     = \<lparr>matA = identity_tiles, Awork = (\<lambda>_. None), pivots = [[], [], [], []]\<rparr>"
  by (simp add: setup_ops_def identity_state_def resize_def numeral_eq_Suc)

lemma identity_4x4_run:
  "getrf_ca_specialization scalar_kernels target 4 4 block_size_1 block_size_1 identity_state ib' mpt la
     = \<lparr>matA = identity_tiles, Awork = (\<lambda>_. None),
        pivots = [[(0, 0)], [(0, 0)], [(0, 0)], [(0, 0)]]\<rparr>"
proof -
  let ?step = "step_ops target 4 4 block_size_1 block_size_1 ib' mpt la"
  let ?S = "\<lambda>ps. \<lparr>matA = identity_tiles, Awork = (\<lambda>_. None), pivots = ps\<rparr> :: (rat, nat \<times> nat) state"
  have s0: "run scalar_kernels 4 (?step 0) (?S [[], [], [], []]) = ?S [[(0, 0)], [], [], []]"
    by (subst step_ops_identity) simp_all
  have s1: "run scalar_kernels 4 (?step 1) (?S [[(0, 0)], [], [], []])
              = ?S [[(0, 0)], [(0, 0)], [], []]"
    by (subst step_ops_identity) simp_all
  have s2: "run scalar_kernels 4 (?step 2) (?S [[(0, 0)], [(0, 0)], [], []])
              = ?S [[(0, 0)], [(0, 0)], [(0, 0)], []]"
    by (subst step_ops_identity) (simp_all add: numeral_2_eq_2)
  have s3: "run scalar_kernels 4 (?step 3) (?S [[(0, 0)], [(0, 0)], [(0, 0)], []])
              = ?S [[(0, 0)], [(0, 0)], [(0, 0)], [(0, 0)]]"
    by (subst step_ops_identity) (simp_all add: numeral_3_eq_3)
  let ?F = "?S [[(0, 0)], [(0, 0)], [(0, 0)], [(0, 0)]]"
  have l0: "run scalar_kernels 4 (left_ops 0) ?F = ?F"
    by (rule left_ops_identity) simp
  have l1: "run scalar_kernels 4 (left_ops 1) ?F = ?F"
    by (rule left_ops_identity) simp
  have l2: "run scalar_kernels 4 (left_ops 2) ?F = ?F"
    by (rule left_ops_identity) (simp add: numeral_2_eq_2)
  have l3: "run scalar_kernels 4 (left_ops 3) ?F = ?F"
    by (rule left_ops_identity) (simp add: numeral_3_eq_3)
  show ?thesis
    unfolding getrf_ca_specialization_def getrf_ca_ops_def Let_def min.idem run_append
      setup_ops_identity
    by (simp add: upto_0_3 s0 s1 s2 s3 l0 l1 l2 l3)
qed

text \<open>
  C7: on a 4-by-4 tile grid of block size 1 holding the identity matrix, with the
  scalar kernels, \<open>getrf_ca\<close> leaves the identity matrix (so \<open>U\<close> is the identity and the
  multipliers of \<open>L\<close> below the diagonal are zero), every pivot record swaps the top
  row of its panel with itself, and the call ends without a failure; this holds
  for every target, inner blocking, thread bound and lookahead, and for the default
  options. The function returns nothing, so no singular index is reported.
\<close>

theorem identity_4x4_factors_to_itself:
  "getrf_ca_specialization scalar_kernels target 4 4 block_size_1 block_size_1 identity_state ib' mpt la
     = \<lparr>matA = identity_tiles, Awork = (\<lambda>_. None),
        pivots = [[(0, 0)], [(0, 0)], [(0, 0)], [(0, 0)]]\<rparr>
   \<and> getrf_ca scalar_kernels target_code to_underlying ndebug omp_max 4 4 block_size_1 block_size_1
       Map.empty identity_state
     = Inr \<lparr>matA = identity_tiles, Awork = (\<lambda>_. None),
            pivots = [[(0, 0)], [(0, 0)], [(0, 0)], [(0, 0)]]\<rparr>"
  by (simp add: identity_4x4_run getrf_ca_def select_target_def getrf_ca_target_def
        getrf_ca_options_def opt_at_def getrf_ca_specialization_int64_exact)

theorem identity_4x4_factors_to_itself_witness:
  "pivots (getrf_ca_specialization scalar_kernels Devices 4 4 block_size_1 block_size_1 identity_state 16 4 2)
     = [[(0, 0)], [(0, 0)], [(0, 0)], [(0, 0)]]
   \<and> matA (getrf_ca_specialization scalar_kernels Devices 4 4 block_size_1 block_size_1 identity_state 16 4 2) (2, 2) = 1
   \<and> matA (getrf_ca_specialization scalar_kernels Devices 4 4 block_size_1 block_size_1 identity_state 16 4 2) (3, 1) = 0"
  using identity_4x4_factors_to_itself [of Devices 16 4 2 "\<lambda>t. 0" "\<lambda>v. v" False 8]
  by (simp add: identity_tiles_def)

text \<open>
  C2: the documentation of \<open>getrf_ca\<close> promises a return value that is zero on
  success and the index of a zero \<open>U(i, i)\<close> otherwise, but the function is \<open>void\<close>. On
  the 1-by-1 zero matrix the factorization completes with \<open>U(0, 0) = 0\<close>, and all the
  caller gets back is the matrix and the pivot table.
\<close>

theorem zero_pivot_is_not_reported:
  "getrf_ca scalar_kernels target_code to_underlying ndebug omp_max 1 1 block_size_1 block_size_1
       Map.empty zero_state
     = Inr \<lparr>matA = (\<lambda>_. 0), Awork = (\<lambda>_. None), pivots = [[(0, 0)]]\<rparr>"
  by (simp add: getrf_ca_def select_target_def getrf_ca_target_def getrf_ca_options_def opt_at_def
        getrf_ca_specialization_int64_exact getrf_ca_specialization_def getrf_ca_ops_def setup_ops_def step_ops_def panel_ops_def
        solve_ops_def trailing_ops_def release_ops_def left_ops_def Let_def zero_state_def
        resize_def panel_factor_def scalar_kernels_def scalar_panel_def get_col_def put_col_def
        permute_block_def trsm_Right_block_def swap_rows_def fun_eq_iff block_size_1_def)

end
